theory Spec2Isabelle
  imports Complex_Main "HOL-Library.Sublist" "HOL-Library.Log_Nat"
begin

section \<open>Data model\<close>

subsection \<open>JSON values\<close>

text \<open>
  What \<^verbatim>\<open>response.json()\<close> can return and what the API client passes on. Numbers are
  exact rationals, an object is the list of its key/value pairs in insertion order
  (keys distinct, none of them an array index, which JavaScript would list first). The JavaScript value \<^verbatim>\<open>undefined\<close> is not a JSON value: where the
  code can meet it (a missing property, an omitted argument) the model uses
  \<open>json option\<close>, with \<open>None\<close> for \<^verbatim>\<open>undefined\<close>.
\<close>

datatype json =
    JNull
  | JBool bool
  | JNum rat
  | JStr string
  | JArr "json list"
  | JObj "(string \<times> json) list"

datatype exn = TypeError | ReferenceError

text \<open>Truthiness of a value in a condition (\<^verbatim>\<open>if (x)\<close>, \<^verbatim>\<open>!x\<close>, \<^verbatim>\<open>x || y\<close>).\<close>

fun truthy :: "json option \<Rightarrow> bool" where
  "truthy None = False"
| "truthy (Some JNull) = False"
| "truthy (Some (JBool b)) = b"
| "truthy (Some (JNum q)) = (q \<noteq> 0)"
| "truthy (Some (JStr s)) = (s \<noteq> [])"
| "truthy (Some (JArr xs)) = True"
| "truthy (Some (JObj kvs)) = True"

text \<open>
  Property read \<^verbatim>\<open>v.k\<close>, for the property names this program reads from API results
  (\<^verbatim>\<open>error\<close>, \<^verbatim>\<open>offline\<close>, \<^verbatim>\<open>token\<close>, \<^verbatim>\<open>user\<close>, \<^verbatim>\<open>role\<close>, \<^verbatim>\<open>message\<close>): reading from
  \<^verbatim>\<open>null\<close> raises a TypeError, a boolean, number, string or array has none of them.
  \<open>getPropU\<close> is the read from a value that may be \<^verbatim>\<open>undefined\<close>, \<open>optProp\<close> is
  the optional chaining \<^verbatim>\<open>v?.k\<close>.
\<close>

fun getProp :: "json \<Rightarrow> string \<Rightarrow> exn + json option" where
  "getProp JNull k = Inl TypeError"
| "getProp (JObj kvs) k = Inr (map_of kvs k)"
| "getProp (JBool b) k = Inr None"
| "getProp (JNum q) k = Inr None"
| "getProp (JStr s) k = Inr None"
| "getProp (JArr xs) k = Inr None"

fun getPropU :: "json option \<Rightarrow> string \<Rightarrow> exn + json option" where
  "getPropU None k = Inl TypeError"
| "getPropU (Some v) k = getProp v k"

fun optProp :: "json \<Rightarrow> string \<Rightarrow> json option" where
  "optProp v k = (case getProp v k of Inl e \<Rightarrow> None | Inr r \<Rightarrow> r)"

subsection \<open>Numbers\<close>

text \<open>
  A JavaScript number is an IEEE double. The numbers this program computes with are
  integers (slot counts, booking counts) and one product with the constant \<^verbatim>\<open>0.3\<close>.
  An integer operand is taken to be a double, as every integer up to \<open>2 ^ 53\<close> in
  absolute value is. \<open>round53\<close> rounds a non-negative integer to 53 significant
  bits, to nearest and ties to even, which is what the double arithmetic does to an
  exact integer result; \<open>toDouble\<close> extends it by sign. A sum or a difference of two
  such integers is the rounded exact result. The double nearest to \<^verbatim>\<open>0.3\<close> is
  \<open>5404319552844595 / 2 ^ 54\<close>, so the product \<^verbatim>\<open>t * 0.3\<close> is the exact product
  \<open>t * 5404319552844595\<close> rounded and then scaled by \<open>2 ^ 54\<close> (scaling by a power of
  two is exact).
\<close>

definition round53 :: "int \<Rightarrow> int" where
  "round53 n =
     (let s = nat (bitlen n - 53);
          q = n div 2 ^ s;
          r = n mod 2 ^ s
      in if 2 * r < 2 ^ s then q * 2 ^ s
         else if 2 * r > 2 ^ s then (q + 1) * 2 ^ s
         else if even q then q * 2 ^ s
         else (q + 1) * 2 ^ s)"

definition toDouble :: "int \<Rightarrow> int" where
  "toDouble n = (if n < 0 then - round53 (- n) else round53 n)"

definition addDouble :: "int \<Rightarrow> int \<Rightarrow> int" where
  "addDouble x y = toDouble (x + y)"

definition subDouble :: "int \<Rightarrow> int \<Rightarrow> int" where
  "subDouble x y = toDouble (x - y)"

definition timesPoint3 :: "int \<Rightarrow> rat" where
  "timesPoint3 t = of_int (toDouble (t * 5404319552844595)) / 2 ^ 54"

subsection \<open>Platform functions\<close>

text \<open>
  The conversions of a JavaScript number to text are the platform's and work on
  floating-point numbers; they are parameters of the model: \<open>num_str\<close> is
  \<^verbatim>\<open>Number.prototype.toString\<close>, \<open>toFixed1\<close> is \<^verbatim>\<open>x.toFixed(1)\<close>. \<open>abort_message\<close> is
  the \<^verbatim>\<open>message\<close> of the error with which \<^verbatim>\<open>fetch\<close> rejects once its signal is
  aborted (browsers word it differently).
\<close>

record platform =
  num_str :: "rat \<Rightarrow> string"
  toFixed1 :: "rat \<Rightarrow> string"
  abort_message :: string

fun join :: "string \<Rightarrow> string list \<Rightarrow> string" where
  "join sep [] = []"
| "join sep [x] = x"
| "join sep (x # y # ys) = x @ sep @ join sep (y # ys)"

text \<open>
  \<^verbatim>\<open>String(v)\<close>, which is also what a template literal and \<^verbatim>\<open>+\<close> with a string do to
  \<^verbatim>\<open>v\<close>. An array is the comma-joined text of its elements, \<^verbatim>\<open>null\<close> elements being
  empty.
\<close>

fun toStr :: "platform \<Rightarrow> json \<Rightarrow> string" where
  "toStr P JNull = ''null''"
| "toStr P (JBool b) = (if b then ''true'' else ''false'')"
| "toStr P (JNum q) = num_str P q"
| "toStr P (JStr s) = s"
| "toStr P (JArr xs) = join '','' (map (\<lambda>x. if x = JNull then [] else toStr P x) xs)"
| "toStr P (JObj kvs) = ''[object Object]''"

fun toString :: "platform \<Rightarrow> json option \<Rightarrow> string" where
  "toString P None = ''undefined''"
| "toString P (Some v) = toStr P v"

text \<open>\<^verbatim>\<open>JSON.stringify\<close> on a JSON value (characters are code units below 256).\<close>

definition hexDigit :: "nat \<Rightarrow> char" where
  "hexDigit n = ''0123456789abcdef'' ! (n mod 16)"

definition jsonEscapeChar :: "char \<Rightarrow> string" where
  "jsonEscapeChar c =
     (if c = CHR 0x22 then [CHR 0x5C, CHR 0x22]
      else if c = CHR 0x5C then [CHR 0x5C, CHR 0x5C]
      else if c = CHR 0x08 then [CHR 0x5C, CHR ''b'']
      else if c = CHR 0x0C then [CHR 0x5C, CHR ''f'']
      else if c = CHR 0x0A then [CHR 0x5C, CHR ''n'']
      else if c = CHR 0x0D then [CHR 0x5C, CHR ''r'']
      else if c = CHR 0x09 then [CHR 0x5C, CHR ''t'']
      else if (of_char c :: nat) < 32
        then [CHR 0x5C] @ ''u00'' @ [hexDigit (of_char c div 16), hexDigit (of_char c)]
      else [c])"

definition jsonQuote :: "string \<Rightarrow> string" where
  "jsonQuote s = [CHR 0x22] @ concat (map jsonEscapeChar s) @ [CHR 0x22]"

fun JSON_stringify :: "platform \<Rightarrow> json \<Rightarrow> string" where
  "JSON_stringify P JNull = ''null''"
| "JSON_stringify P (JBool b) = (if b then ''true'' else ''false'')"
| "JSON_stringify P (JNum q) = num_str P q"
| "JSON_stringify P (JStr s) = jsonQuote s"
| "JSON_stringify P (JArr xs) = ''['' @ join '','' (map (JSON_stringify P) xs) @ '']''"
| "JSON_stringify P (JObj kvs) =
     ''{'' @ join '','' (map (\<lambda>(k, v). jsonQuote k @ '':'' @ JSON_stringify P v) kvs) @ ''}''"

subsection \<open>Browser state\<close>

text \<open>
  The part of the browser the scripts write: local storage, the number of
  \<^verbatim>\<open>location.reload()\<close> calls, the last value assigned to \<^verbatim>\<open>window.location.href\<close>
  (\<open>None\<close> while nothing was assigned) and the alerts shown. An alert is recorded by
  its kind and the variable part of its text.
\<close>

datatype alert =
    LoginFailed string
  | WrongPortal string
  | LoginError exn

record browser =
  storage :: "string \<rightharpoonup> string"
  reloads :: nat
  href :: "string option"
  alerts :: "alert list"

section \<open>API client\<close>

definition API_BASE :: string where
  "API_BASE = ''/api''"

definition DEMO_CHARGERS :: json where
  "DEMO_CHARGERS = JArr [
     JObj [(''_id'', JStr ''demo-1''),
           (''name'', JStr ''Oxford Street Hub''),
           (''address'', JStr ''123 Oxford Street, London W1D 2EH''),
           (''latitude'', JNum 51.5161),
           (''longitude'', JNum (- 0.1426)),
           (''chargerType'', JStr ''DC Fast''),
           (''totalSlots'', JNum 8),
           (''availableSlots'', JNum 6),
           (''rating'', JNum 4.8)],
     JObj [(''_id'', JStr ''demo-2''),
           (''name'', JStr ''Tower Bridge Plaza''),
           (''address'', JStr ''Tower Bridge, London SE1 2UP''),
           (''latitude'', JNum 51.5055),
           (''longitude'', JNum (- 0.0754)),
           (''chargerType'', JStr ''Level 2''),
           (''totalSlots'', JNum 6),
           (''availableSlots'', JNum 2),
           (''rating'', JNum 4.5)],
     JObj [(''_id'', JStr ''demo-3''),
           (''name'', JStr ''Green Park Station''),
           (''address'', JStr ''Green Park, London SW1A 1AX''),
           (''latitude'', JNum 51.5036),
           (''longitude'', JNum (- 0.1496)),
           (''chargerType'', JStr ''Level 2''),
           (''totalSlots'', JNum 4),
           (''availableSlots'', JNum 1),
           (''rating'', JNum 4.2)]]"

definition DEMO_LEADERBOARD :: json where
  "DEMO_LEADERBOARD = JArr [
     JObj [(''_id'', JStr ''u1''), (''name'', JStr ''John Smith''),
           (''greenScore'', JNum 175), (''totalChargingTime'', JNum 17.5)],
     JObj [(''_id'', JStr ''u2''), (''name'', JStr ''Sarah Johnson''),
           (''greenScore'', JNum 150), (''totalChargingTime'', JNum 15)]]"

subsection \<open>The network as seen by one call\<close>

text \<open>
  What happens to one \<^verbatim>\<open>fetch\<close> call, with times in milliseconds after the call.
  \<open>Fulfils t status body\<close>: the promise fulfils at time \<open>t\<close> with a response of that
  HTTP status, and \<^verbatim>\<open>response.json()\<close> then yields the parsed body, rejects with a
  message (the body is not JSON, the connection broke), or never settles.
  \<open>Rejects t msg\<close>: the promise rejects at time \<open>t\<close> (network error).
  \<open>NeverSettles\<close>: left alone, the promise would stay pending for ever.
  The options of a call are its \<^verbatim>\<open>method\<close> (field \<open>http_method\<close>), its headers
  and its body; a network maps the URL and the options of a call to its outcome.
\<close>

datatype body_outcome = BodyJson json | BodyFails string | BodyNever

datatype fetch_outcome =
    Fulfils nat nat body_outcome
  | Rejects nat string
  | NeverSettles

record fetch_options =
  http_method :: string
  headers :: "(string \<times> string) list"
  body :: "string option"

type_synonym network = "string \<Rightarrow> fetch_options \<Rightarrow> fetch_outcome"

definition timeout_ms :: nat where
  "timeout_ms = 10000"

text \<open>The object \<^verbatim>\<open>{ error: err.message, offline: true }\<close> of the catch block.\<close>

definition failure :: "string \<Rightarrow> json" where
  "failure msg = JObj [(''error'', JStr msg), (''offline'', JBool True)]"

text \<open>
  \<^verbatim>\<open>API.request(method, endpoint, data)\<close>, first part: the options handed to
  \<^verbatim>\<open>fetch\<close>. The bearer token is attached when local storage holds a non-empty
  \<^verbatim>\<open>token\<close>, the body when \<^verbatim>\<open>data\<close> is truthy (\<open>None\<close> is the default \<^verbatim>\<open>null\<close>).
\<close>

definition requestOptions :: "platform \<Rightarrow> string \<Rightarrow> json option \<Rightarrow> browser \<Rightarrow> fetch_options" where
  "requestOptions P meth data st =
     (let options = \<lparr>http_method = meth,
                     headers = [(''Content-Type'', ''application/json'')],
                     body = None\<rparr>;
          options = (case storage st ''token'' of
                       None \<Rightarrow> options
                     | Some token \<Rightarrow>
                         if token \<noteq> []
                         then options\<lparr>headers := headers options @
                                         [(''Authorization'', ''Bearer '' @ token)]\<rparr>
                         else options)
      in case data of
           None \<Rightarrow> options
         | Some d \<Rightarrow>
             if truthy (Some d)
             then options\<lparr>body := Some (JSON_stringify P d)\<rparr>
             else options)"

text \<open>
  \<^verbatim>\<open>API.request\<close>, the \<^verbatim>\<open>try\<close> block. The result is \<open>None\<close> when the call never
  returns. The timer set before \<^verbatim>\<open>fetch\<close> aborts a fetch that has not settled before
  \<open>timeout_ms\<close>, and the aborted fetch rejects with the abort error;
  \<^verbatim>\<open>clearTimeout\<close> runs when \<^verbatim>\<open>fetch\<close> has fulfilled, before the status is looked at
  and before the body is read. Every rejection inside the block ends in the
  \<^verbatim>\<open>catch\<close>, which returns the failure object.
\<close>

definition request ::
  "platform \<Rightarrow> network \<Rightarrow> string \<Rightarrow> string \<Rightarrow> json option \<Rightarrow> browser
     \<Rightarrow> json option \<times> browser" where
  "request P fetch meth endpoint data st =
     (case fetch (API_BASE @ endpoint) (requestOptions P meth data st) of
        Fulfils t status b \<Rightarrow>
          if t < timeout_ms then
            (let st' = (if status = 401
                        then st\<lparr>storage := (storage st)(''token'' := None, ''user'' := None),
                               reloads := reloads st + 1\<rparr>
                        else st)
             in case b of
                  BodyJson j \<Rightarrow> (Some j, st')
                | BodyFails msg \<Rightarrow> (Some (failure msg), st')
                | BodyNever \<Rightarrow> (None, st'))
          else (Some (failure (abort_message P)), st)
      | Rejects t msg \<Rightarrow>
          if t < timeout_ms then (Some (failure msg), st)
          else (Some (failure (abort_message P)), st)
      | NeverSettles \<Rightarrow> (Some (failure (abort_message P)), st))"

definition API_login ::
  "platform \<Rightarrow> network \<Rightarrow> string \<Rightarrow> string \<Rightarrow> browser \<Rightarrow> json option \<times> browser" where
  "API_login P fetch email password st =
     request P fetch ''POST'' ''/auth/login''
       (Some (JObj [(''email'', JStr email), (''password'', JStr password)])) st"

text \<open>The test \<^verbatim>\<open>result.error || result.offline\<close> of the fallback endpoints.\<close>

definition errorOrOffline :: "json \<Rightarrow> exn + bool" where
  "errorOrOffline result =
     (case getProp result ''error'' of
        Inl e \<Rightarrow> Inl e
      | Inr err \<Rightarrow>
          if truthy err then Inr True
          else (case getProp result ''offline'' of
                  Inl e \<Rightarrow> Inl e
                | Inr off \<Rightarrow> Inr (truthy off)))"

text \<open>
  \<^verbatim>\<open>API.getAllChargers()\<close> and \<^verbatim>\<open>API.getLeaderboard()\<close>: \<open>None\<close> when the call never
  returns, \<open>Some (Inl e)\<close> when it throws, \<open>Some (Inr v)\<close> when it returns \<open>v\<close>.
\<close>

definition getAllChargers ::
  "platform \<Rightarrow> network \<Rightarrow> browser \<Rightarrow> (exn + json) option \<times> browser" where
  "getAllChargers P fetch st =
     (case request P fetch ''GET'' ''/chargers'' None st of
        (None, st') \<Rightarrow> (None, st')
      | (Some result, st') \<Rightarrow>
          (case errorOrOffline result of
             Inl e \<Rightarrow> (Some (Inl e), st')
           | Inr failed \<Rightarrow>
               if failed then (Some (Inr DEMO_CHARGERS), st')
               else (Some (Inr result), st')))"

definition getLeaderboard ::
  "platform \<Rightarrow> network \<Rightarrow> browser \<Rightarrow> (exn + json) option \<times> browser" where
  "getLeaderboard P fetch st =
     (case request P fetch ''GET'' ''/users/leaderboard'' None st of
        (None, st') \<Rightarrow> (None, st')
      | (Some result, st') \<Rightarrow>
          (case errorOrOffline result of
             Inl e \<Rightarrow> (Some (Inl e), st')
           | Inr failed \<Rightarrow>
               if failed then (Some (Inr DEMO_LEADERBOARD), st')
               else (Some (Inr result), st')))"

section \<open>Authentication\<close>

text \<open>
  \<^verbatim>\<open>Auth.login(email, password, role)\<close>; \<open>None\<close> when the call never returns. The
  \<^verbatim>\<open>try\<close> block covers the whole body, so a TypeError raised by
  \<^verbatim>\<open>result.user.role\<close> ends in the alert of the \<^verbatim>\<open>catch\<close> block. Where
  \<^verbatim>\<open>result.token\<close> and \<^verbatim>\<open>result.user\<close> are read the result is truthy, hence not
  \<^verbatim>\<open>null\<close>, and the read cannot raise.
\<close>

definition login ::
  "platform \<Rightarrow> network \<Rightarrow> string \<Rightarrow> string \<Rightarrow> string \<Rightarrow> browser \<Rightarrow> browser option" where
  "login P fetch email password role st =
     (case API_login P fetch email password st of
        (None, st') \<Rightarrow> None
      | (Some result, st') \<Rightarrow>
          Some
           (if \<not> truthy (Some result) \<or> \<not> truthy (optProp result ''token'') then
              (let msg = (if truthy (optProp result ''message'')
                            then toString P (optProp result ''message'')
                          else if truthy (optProp result ''error'')
                            then toString P (optProp result ''error'')
                          else ''Please check your credentials'')
               in st'\<lparr>alerts := alerts st' @ [LoginFailed msg]\<rparr>)
            else
              (case getPropU (optProp result ''user'') ''role'' of
                 Inl e \<Rightarrow> st'\<lparr>alerts := alerts st' @ [LoginError e]\<rparr>
               | Inr userRole \<Rightarrow>
                   if userRole \<noteq> Some (JStr role) then
                     st'\<lparr>alerts := alerts st' @ [WrongPortal (toString P userRole)]\<rparr>
                   else
                     (let dashboard = (if userRole = Some (JStr ''owner'')
                                       then ''/public/owner.html''
                                       else ''/public/dashboard.html'')
                      in st'\<lparr>storage := (storage st')
                               (''token'' \<mapsto> toString P (optProp result ''token''),
                                ''user'' \<mapsto> (case optProp result ''user'' of
                                              None \<Rightarrow> ''undefined''
                                            | Some u \<Rightarrow> JSON_stringify P u)),
                             href := Some dashboard\<rparr>))))"

section \<open>Map and charger rendering\<close>

text \<open>
  A charging station as the rendering code reads it: the fields of the objects in
  \<^verbatim>\<open>DEMO_CHARGERS\<close> plus the optional \<^verbatim>\<open>description\<close>. The field \<^verbatim>\<open>_id\<close> is
  called \<open>c_id\<close>. Slot counts are integers, the other numbers exact rationals; an
  absent (\<^verbatim>\<open>undefined\<close>) optional field is \<open>None\<close>. The text of every template
  literal is reproduced with its line breaks and indentation.
\<close>

record charger =
  c_id :: string
  name :: string
  address :: "string option"
  latitude :: rat
  longitude :: rat
  chargerType :: string
  totalSlots :: int
  availableSlots :: int
  rating :: "rat option"
  description :: "string option"

text \<open>
  The object \<^verbatim>\<open>JSON.stringify(charger)\<close> serialises: the keys in the order of the
  demo stations, an absent optional field left out.
\<close>

definition charger_json :: "charger \<Rightarrow> json" where
  "charger_json c = JObj
     ([(''_id'', JStr (c_id c)), (''name'', JStr (name c))]
      @ (case address c of None \<Rightarrow> [] | Some a \<Rightarrow> [(''address'', JStr a)])
      @ [(''latitude'', JNum (latitude c)),
         (''longitude'', JNum (longitude c)),
         (''chargerType'', JStr (chargerType c)),
         (''totalSlots'', JNum (of_int (totalSlots c))),
         (''availableSlots'', JNum (of_int (availableSlots c)))]
      @ (case rating c of None \<Rightarrow> [] | Some r \<Rightarrow> [(''rating'', JNum r)])
      @ (case description c of None \<Rightarrow> [] | Some d \<Rightarrow> [(''description'', JStr d)]))"

subsection \<open>Status classification\<close>

text \<open>
  \<^verbatim>\<open>Math.ceil(charger.totalSlots * 0.3)\<close> is the ceiling of the double product
  \<open>timesPoint3\<close>; the comparisons are between integers.
\<close>

definition getChargerStatus :: "charger \<Rightarrow> string" where
  "getChargerStatus charger =
     (if availableSlots charger = 0 then ''busy''
      else if availableSlots charger < \<lceil>timesPoint3 (totalSlots charger)\<rceil> then ''limited''
      else ''available'')"

subsection \<open>Text helpers\<close>

text \<open>
  \<^verbatim>\<open>escapeHtml\<close> assigns the text to \<^verbatim>\<open>textContent\<close> of a fresh element and reads
  \<^verbatim>\<open>innerHTML\<close> back. The HTML serialisation of a text node replaces \<^verbatim>\<open>&\<close>, \<^verbatim>\<open><\<close>,
  \<^verbatim>\<open>>\<close> and the no-break space (code unit 0xA0) by their entities and nothing else.
\<close>

definition escapeChar :: "char \<Rightarrow> string" where
  \<open>escapeChar c =
     (if c = CHR ''&'' then ''&amp;''
      else if c = CHR ''<'' then ''&lt;''
      else if c = CHR ''>'' then ''&gt;''
      else if c = CHR 0xA0 then ''&nbsp;''
      else [c])\<close>

definition escapeHtml :: "string \<Rightarrow> string" where
  "escapeHtml text = concat (map escapeChar text)"

text \<open>An optional string inside a template literal; \<^verbatim>\<open>x || fallback\<close> on one.\<close>

fun interp :: "string option \<Rightarrow> string" where
  "interp None = ''undefined''"
| "interp (Some s) = s"

fun orElse :: "string option \<Rightarrow> string \<Rightarrow> string" where
  "orElse None fallback = fallback"
| "orElse (Some s) fallback = (if s \<noteq> [] then s else fallback)"

text \<open>\<^verbatim>\<open>s.replace(/"/g, '&quot;')\<close> and \<^verbatim>\<open>s.replace(pat, rep)\<close> with a string pattern.\<close>

definition replaceQuot :: "string \<Rightarrow> string" where
  \<open>replaceQuot s = concat (map (\<lambda>c. if c = CHR 0x22 then ''&quot;'' else [c]) s)\<close>

fun replaceFirst :: "string \<Rightarrow> string \<Rightarrow> string \<Rightarrow> string" where
  "replaceFirst pat rep [] = (if pat = [] then rep else [])"
| "replaceFirst pat rep (c # cs) =
     (if take (length pat) (c # cs) = pat then rep @ drop (length pat) (c # cs)
      else c # replaceFirst pat rep cs)"

text \<open>The lookup objects indexed by the status; \<^verbatim>\<open>statusText\<close> is \<^verbatim>\<open>statusLabel\<close>.\<close>

definition statusBadgeClass :: "string \<Rightarrow> string option" where
  "statusBadgeClass status =
     map_of [(''available'', ''bg-success''), (''limited'', ''bg-warning''),
             (''busy'', ''bg-danger'')] status"

definition statusLabel :: "string \<Rightarrow> string option" where
  "statusLabel status =
     map_of [(''available'', ''Available''), (''limited'', ''Limited''),
             (''busy'', ''Busy'')] status"

definition statusClass :: "string \<Rightarrow> string option" where
  "statusClass status =
     map_of [(''available'', ''border-success''), (''limited'', ''border-warning''),
             (''busy'', ''border-danger'')] status"

subsection \<open>Marker popup\<close>

text \<open>
  \<^verbatim>\<open>createMarkerPopup(charger, status)\<close>; \<open>user\<close> is what \<^verbatim>\<open>Auth.getCurrentUser()\<close>
  returns (\<open>None\<close> for \<^verbatim>\<open>null\<close>).
\<close>

definition isUser :: "json option \<Rightarrow> bool" where
  "isUser user = (truthy user \<and> getPropU user ''role'' = Inr (Some (JStr ''user'')))"

definition createMarkerPopup :: "platform \<Rightarrow> json option \<Rightarrow> charger \<Rightarrow> string \<Rightarrow> string" where
  \<open>createMarkerPopup P user charger status =
     (let bookingButton =
            (if isUser user \<and> availableSlots charger > 0 then
               ''\<newline>''
            @ ''                <button class="btn btn-sm btn-success w-100 mt-2" \<newline>''
            @ ''                    onclick="selectAndShowBooking(''
            @ [CHR 0x27]
            @ c_id charger
            @ [CHR 0x27]
            @ '')"\<newline>''
            @ ''                    style="font-size: 0.85rem;">\<newline>''
            @ ''                Book Slot\<newline>''
            @ ''            </button>\<newline>''
            @ ''        ''
             else if isUser user \<and> availableSlots charger = 0 then
               ''<p class="alert alert-danger mb-0 mt-2 p-2">No available slots</p>''
             else [])
      in
        ''\<newline>''
        @ ''        <div class="charger-popup-content" style="font-size: 0.9rem;">\<newline>''
        @ ''            <div style="min-width: 240px;">\<newline>''
        @ ''                <div style="display: flex; justify-content: space-between; align-items: flex-start; margin-bottom: 8px; gap: 8px;">\<newline>''
        @ ''                    <strong style="font-size: 1rem;">''
        @ escapeHtml (name charger)
        @ ''</strong>\<newline>''
        @ ''                    <span class="badge ''
        @ interp (statusBadgeClass status)
        @ ''" style="white-space: nowrap; font-size: 0.75rem;">''
        @ interp (statusLabel status)
        @ ''</span>\<newline>''
        @ ''                </div>\<newline>''
        @ ''                \<newline>''
        @ ''                <div style="border-top: 1px solid #e9ecef; padding-top: 8px;">\<newline>''
        @ ''                    ''
        @ (case address charger of
             None \<Rightarrow> []
           | Some a \<Rightarrow>
               if a \<noteq> [] then
                 (''<div style="margin-bottom: 6px;"><small style="color: #666;">''
                  @ escapeHtml a
                  @ ''</small></div>'')
               else [])
        @ ''\<newline>''
        @ ''                    <div style="margin-bottom: 6px;"><small style="color: #666;">''
        @ chargerType charger
        @ ''</small></div>\<newline>''
        @ ''                    <div style="margin-bottom: 8px;"><small style="color: #666;">Slots: <strong>''
        @ num_str P (of_int (availableSlots charger))
        @ ''</strong> / ''
        @ num_str P (of_int (totalSlots charger))
        @ ''</small></div>\<newline>''
        @ ''                    ''
        @ (case rating charger of
             None \<Rightarrow> []
           | Some r \<Rightarrow>
               if r \<noteq> 0 then
                 (''<div style="margin-bottom: 8px;"><small style="color: #666;">''
                  @ toFixed1 P r
                  @ '' / 5.0</small></div>'')
               else [])
        @ ''\<newline>''
        @ ''                    ''
        @ (case description charger of
             None \<Rightarrow> []
           | Some d \<Rightarrow>
               if d \<noteq> [] then
                 (''<div style="margin-bottom: 8px; color: #666;"><small>''
                  @ escapeHtml d
                  @ ''</small></div>'')
               else [])
        @ ''\<newline>''
        @ ''                </div>\<newline>''
        @ ''                \<newline>''
        @ ''                ''
        @ bookingButton
        @ ''\<newline>''
        @ ''            </div>\<newline>''
        @ ''        </div>\<newline>''
        @ ''    '')\<close>

subsection \<open>Sidebar list\<close>

text \<open>
  The body of the \<^verbatim>\<open>forEach\<close> callback of \<^verbatim>\<open>renderChargersList\<close>: the card appended
  to \<^verbatim>\<open>html\<close> for one station. Its template literal is given in two parts: the
  opening tag of the card, which carries the \<^verbatim>\<open>onclick\<close> attribute (lines 355 to 357),
  and the content of the card with its closing tag (lines 358 to 368).
  \<^verbatim>\<open>statusClass.replace\<close> raises a TypeError when the lookup gave \<^verbatim>\<open>undefined\<close>.
\<close>

definition cardOpenTag :: "platform \<Rightarrow> charger \<Rightarrow> string \<Rightarrow> string" where
  \<open>cardOpenTag P charger borderClass =
        ''\<newline>''
        @ ''            <div class="card mb-2 ''
        @ borderClass
        @ '' border-2 cursor-pointer" \<newline>''
        @ ''                 onclick="showChargerDetail(''
        @ replaceQuot (JSON_stringify P (charger_json charger))
        @ '')">\<newline>''\<close>

definition cardContent :: "platform \<Rightarrow> charger \<Rightarrow> string \<Rightarrow> string \<Rightarrow> string" where
  \<open>cardContent P charger status borderClass =
        ''                <div class="card-body p-3">\<newline>''
        @ ''                    <h6 class="mb-1">''
        @ escapeHtml (name charger)
        @ ''</h6>\<newline>''
        @ ''                    <small class="text-muted d-block">''
        @ escapeHtml (orElse (address charger) ''No address'')
        @ ''</small>\<newline>''
        @ ''                    <small class="text-muted d-block">''
        @ chargerType charger
        @ ''</small>\<newline>''
        @ ''                    <div class="mt-2 d-flex justify-content-between">\<newline>''
        @ ''                        <small><strong>''
        @ num_str P (of_int (availableSlots charger))
        @ ''/''
        @ num_str P (of_int (totalSlots charger))
        @ ''</strong> slots</small>\<newline>''
        @ ''                        <span class="badge ''
        @ replaceFirst ''border-'' ''bg-'' borderClass
        @ ''">''
        @ interp (statusLabel status)
        @ ''</span>\<newline>''
        @ ''                    </div>\<newline>''
        @ ''                </div>\<newline>''
        @ ''            </div>\<newline>''
        @ ''        ''\<close>

definition chargerCard :: "platform \<Rightarrow> charger \<Rightarrow> exn + string" where
  "chargerCard P charger =
     (let status = getChargerStatus charger in
        case statusClass status of
          None \<Rightarrow> Inl TypeError
        | Some borderClass \<Rightarrow>
            Inr (cardOpenTag P charger borderClass @ cardContent P charger status borderClass))"

text \<open>The \<^verbatim>\<open>forEach\<close> loop with its accumulator \<^verbatim>\<open>html\<close>; an exception ends it.\<close>

fun forEachCard :: "platform \<Rightarrow> charger list \<Rightarrow> string \<Rightarrow> exn + string" where
  "forEachCard P [] html = Inr html"
| "forEachCard P (charger # rest) html =
     (case chargerCard P charger of
        Inl e \<Rightarrow> Inl e
      | Inr cardHtml \<Rightarrow> forEachCard P rest (html @ cardHtml))"

text \<open>
  \<^verbatim>\<open>renderChargersList()\<close> on the global list \<^verbatim>\<open>chargers\<close>; \<open>container\<close> tells whether
  the element \<^verbatim>\<open>chargersList\<close> exists. The result is the new \<^verbatim>\<open>innerHTML\<close> of that
  element, \<open>None\<close> when nothing is written.
\<close>

definition renderChargersList :: "platform \<Rightarrow> bool \<Rightarrow> charger list \<Rightarrow> exn + string option" where
  \<open>renderChargersList P container chargers =
     (if \<not> container then Inr None
      else case forEachCard P (take 10 chargers) [] of
             Inl e \<Rightarrow> Inl e
           | Inr html \<Rightarrow>
               Inr (Some (if html \<noteq> [] then html
                          else ''<p class="text-muted">No chargers available</p>'')))\<close>

subsection \<open>Detail modal\<close>

text \<open>
  \<^verbatim>\<open>showChargerDetail(charger)\<close>: the text of the modal title, the HTML of the modal
  body, and the state and label of the booking button.
\<close>

record detail_view =
  modalTitle :: string
  modalBody :: string
  bookDisabled :: bool
  bookText :: string

definition showChargerDetail :: "platform \<Rightarrow> charger \<Rightarrow> detail_view" where
  \<open>showChargerDetail P charger =
     (let status = getChargerStatus charger;
          html =
          ''\<newline>''
          @ ''        <div class="row mb-3">\<newline>''
          @ ''            <div class="col-6">\<newline>''
          @ ''                <small class="text-muted d-block">Type</small>\<newline>''
          @ ''                <strong>''
          @ chargerType charger
          @ ''</strong>\<newline>''
          @ ''            </div>\<newline>''
          @ ''            <div class="col-6">\<newline>''
          @ ''                <small class="text-muted d-block">Available Slots</small>\<newline>''
          @ ''                <strong>''
          @ num_str P (of_int (availableSlots charger))
          @ ''/''
          @ num_str P (of_int (totalSlots charger))
          @ ''</strong>\<newline>''
          @ ''            </div>\<newline>''
          @ ''        </div>\<newline>''
          @ ''        <div class="mb-3">\<newline>''
          @ ''            <span class="badge ''
          @ interp (statusBadgeClass status)
          @ ''">''
          @ interp (statusLabel status)
          @ ''</span>\<newline>''
          @ ''        </div>\<newline>''
          @ ''        <hr>\<newline>''
          @ ''        <p><strong>Address:</strong> ''
          @ escapeHtml (orElse (address charger) ''N/A'')
          @ ''</p>\<newline>''
          @ ''        <p><strong>Rating:</strong> ''
          @ (case rating charger of None \<Rightarrow> ''N/A'' | Some r \<Rightarrow> if r \<noteq> 0 then toFixed1 P r else ''N/A'')
          @ '' / 5.0</p>\<newline>''
          @ ''        ''
          @ (case description charger of
               None \<Rightarrow> []
             | Some d \<Rightarrow>
                 if d \<noteq> [] then
                   (''<p><strong>Description:</strong> ''
                    @ escapeHtml d
                    @ ''</p>'')
                 else [])
          @ ''\<newline>''
          @ ''    ''
      in \<lparr>modalTitle = name charger,
          modalBody = html,
          bookDisabled = (availableSlots charger = 0),
          bookText = (if availableSlots charger > 0 then ''Book Now''
                      else ''No Slots Available'')\<rparr>)\<close>

section \<open>Owner dashboard\<close>

text \<open>
  A booking as the dashboard reads it: only \<^verbatim>\<open>status\<close> is looked at by the functions
  modelled here. What a call that is expected to return an array of records did:
  it returned an array, it returned something that is not an array (the failure
  object of \<open>request\<close> is one such value), or it threw.
\<close>

record booking =
  status :: string

datatype 'a api_result = IsArray "'a list" | NotArray | Throws

text \<open>\<^verbatim>\<open>s.replace(/'/g, "&apos;")\<close>.\<close>

definition replaceApos :: "string \<Rightarrow> string" where
  \<open>replaceApos s = concat (map (\<lambda>c. if c = CHR 0x27 then ''&apos;'' else [c]) s)\<close>

subsection \<open>Station table\<close>

definition stationRow :: "platform \<Rightarrow> charger \<Rightarrow> nat \<Rightarrow> string" where
  \<open>stationRow P charger bookingCount =
        ''\<newline>''
        @ ''                        <tr>\<newline>''
        @ ''                            <td>\<newline>''
        @ ''                                <strong>''
        @ name charger
        @ ''</strong>\<newline>''
        @ ''                                <br>\<newline>''
        @ ''                                <small class="text-muted">''
        @ interp (address charger)
        @ ''</small>\<newline>''
        @ ''                            </td>\<newline>''
        @ ''                            <td><span class="badge bg-secondary">''
        @ chargerType charger
        @ ''</span></td>\<newline>''
        @ ''                                <td>''
        @ num_str P (of_int (availableSlots charger))
        @ ''/''
        @ num_str P (of_int (totalSlots charger))
        @ ''</td>\<newline>''
        @ ''                            <td><strong>''
        @ num_str P (of_nat bookingCount)
        @ ''</strong></td>\<newline>''
        @ ''                                <td>\<newline>''
        @ ''                                    <button class="btn btn-sm btn-warning" onclick="openEditModal(''
        @ [CHR 0x27]
        @ c_id charger
        @ [CHR 0x27]
        @ '', ''
        @ [CHR 0x27]
        @ name charger
        @ [CHR 0x27]
        @ '', ''
        @ [CHR 0x27]
        @ replaceApos (orElse (description charger) [])
        @ [CHR 0x27]
        @ '', ''
        @ num_str P (of_int (totalSlots charger))
        @ '')">Edit</button>\<newline>''
        @ ''                                    <button class="btn btn-sm btn-danger" onclick="deleteCharger(''
        @ [CHR 0x27]
        @ c_id charger
        @ [CHR 0x27]
        @ '')">Delete</button>\<newline>''
        @ ''                                </td>\<newline>''
        @ ''                        </tr>\<newline>''
        @ ''                    ''\<close>

definition stationRowNoBookings :: "platform \<Rightarrow> charger \<Rightarrow> string" where
  \<open>stationRowNoBookings P charger =
        ''\<newline>''
        @ ''                        <tr>\<newline>''
        @ ''                            <td>\<newline>''
        @ ''                                <strong>''
        @ name charger
        @ ''</strong>\<newline>''
        @ ''                                <br>\<newline>''
        @ ''                                <small class="text-muted">''
        @ interp (address charger)
        @ ''</small>\<newline>''
        @ ''                            </td>\<newline>''
        @ ''                            <td><span class="badge bg-secondary">''
        @ chargerType charger
        @ ''</span></td>\<newline>''
        @ ''                            <td>''
        @ num_str P (of_int (availableSlots charger))
        @ ''/''
        @ num_str P (of_int (totalSlots charger))
        @ ''</td>\<newline>''
        @ ''                            <td><span class="text-muted">-</span></td>\<newline>''
        @ ''                            <td>\<newline>''
        @ ''                                <button class="btn btn-sm btn-warning" onclick="openEditModal(''
        @ [CHR 0x27]
        @ c_id charger
        @ [CHR 0x27]
        @ '', ''
        @ [CHR 0x27]
        @ name charger
        @ [CHR 0x27]
        @ '', ''
        @ [CHR 0x27]
        @ replaceApos (orElse (description charger) [])
        @ [CHR 0x27]
        @ '', ''
        @ num_str P (of_int (totalSlots charger))
        @ '')">Edit</button>\<newline>''
        @ ''                                <button class="btn btn-sm btn-danger" onclick="deleteCharger(''
        @ [CHR 0x27]
        @ c_id charger
        @ [CHR 0x27]
        @ '')">Delete</button>\<newline>''
        @ ''                            </td>\<newline>''
        @ ''                        </tr>\<newline>''
        @ ''                    ''\<close>

text \<open>
  The loop \<^verbatim>\<open>for (const charger of ownerStations)\<close> of \<^verbatim>\<open>loadOwnerStations\<close> with its
  accumulator \<^verbatim>\<open>html\<close>; \<open>bookingsOf id\<close> is what \<^verbatim>\<open>API.getChargerBookings(id)\<close> does
  during the pass. The two rows are the two template literals of the \<^verbatim>\<open>try\<close> and the
  \<^verbatim>\<open>catch\<close> block.
\<close>

fun stationRows ::
  "platform \<Rightarrow> (string \<Rightarrow> booking api_result) \<Rightarrow> charger list \<Rightarrow> string \<Rightarrow> string" where
  "stationRows P bookingsOf [] html = html"
| "stationRows P bookingsOf (charger # rest) html =
     stationRows P bookingsOf rest
       (html @
        (case bookingsOf (c_id charger) of
           IsArray bookings \<Rightarrow>
             stationRow P charger (length (filter (\<lambda>b. status b \<noteq> ''cancelled'') bookings))
         | NotArray \<Rightarrow> stationRow P charger 0
         | Throws \<Rightarrow> stationRowNoBookings P charger))"

definition couldNotLoad :: string where
  \<open>couldNotLoad = ''<p class="text-warning">Could not load chargers. Please refresh the page.</p>''\<close>

text \<open>
  \<^verbatim>\<open>loadOwnerStations()\<close>: the new value of the global \<^verbatim>\<open>ownerStations\<close> and the new
  \<^verbatim>\<open>innerHTML\<close> of the element \<^verbatim>\<open>myChargersList\<close>; \<open>data\<close> is what
  \<^verbatim>\<open>API.getOwnerChargers()\<close> did. Line 75 reads \<^verbatim>\<open>ownerChargers.length\<close>. The binding of
  that identifier is the first argument: \<open>None\<close> when no script declares it, in which
  case reading it raises a ReferenceError that the outer \<^verbatim>\<open>catch\<close> turns into the
  warning paragraph; \<open>Some xs\<close> when it is bound to an array.
\<close>

definition loadOwnerStations_with ::
  "charger list option \<Rightarrow> platform \<Rightarrow> charger api_result \<Rightarrow> (string \<Rightarrow> booking api_result)
     \<Rightarrow> charger list \<Rightarrow> charger list \<times> string" where
  \<open>loadOwnerStations_with ownerChargers P data bookingsOf ownerStations0 =
     (case data of
        Throws \<Rightarrow> (ownerStations0, couldNotLoad)
      | _ \<Rightarrow>
        (let ownerStations = (case data of IsArray d \<Rightarrow> d | _ \<Rightarrow> []) in
           case ownerChargers of
             None \<Rightarrow> (ownerStations, couldNotLoad)
           | Some oc \<Rightarrow>
               (ownerStations,
                if length oc = 0 then
                  ''<p class="text-muted">No stations yet. Add your first charging station above!</p>''
                else
                  stationRows P bookingsOf ownerStations
                    (''\<newline>''
                      @ ''                <div class="table-responsive">\<newline>''
                      @ ''                    <table class="table table-hover mb-0">\<newline>''
                      @ ''                        <thead class="table-light">\<newline>''
                      @ ''                            <tr>\<newline>''
                      @ ''                                <th>Station Name</th>\<newline>''
                      @ ''                                <th>Type</th>\<newline>''
                      @ ''                                <th>Slots</th>\<newline>''
                      @ ''                                <th>Bookings</th>\<newline>''
                      @ ''                                <th>Actions</th>\<newline>''
                      @ ''                            </tr>\<newline>''
                      @ ''                        </thead>\<newline>''
                      @ ''                        <tbody>\<newline>''
                      @ ''            '')
                  @ (''\<newline>''
                      @ ''                        </tbody>\<newline>''
                      @ ''                    </table>\<newline>''
                      @ ''                </div>\<newline>''
                      @ ''            ''))))\<close>

text \<open>
  No script of the repository declares \<^verbatim>\<open>ownerChargers\<close> (the global of
  owner-dashboard.js is \<^verbatim>\<open>ownerStations\<close>), so this is the function as it runs.
\<close>

definition loadOwnerStations ::
  "platform \<Rightarrow> charger api_result \<Rightarrow> (string \<Rightarrow> booking api_result)
     \<Rightarrow> charger list \<Rightarrow> charger list \<times> string" where
  "loadOwnerStations = loadOwnerStations_with None"

subsection \<open>Statistics\<close>

text \<open>
  The loop of \<^verbatim>\<open>loadStatistics\<close> with its two accumulators \<^verbatim>\<open>totalBookings\<close> and
  \<^verbatim>\<open>totalAvailableSlots\<close>; the inner \<^verbatim>\<open>catch\<close> only logs. The additions are those
  of doubles.
\<close>

fun statisticsLoop ::
  "(string \<Rightarrow> booking api_result) \<Rightarrow> charger list \<Rightarrow> int \<times> int \<Rightarrow> int \<times> int" where
  "statisticsLoop bookingsOf [] acc = acc"
| "statisticsLoop bookingsOf (charger # rest) (totalBookings, totalAvailableSlots) =
     statisticsLoop bookingsOf rest
       (case bookingsOf (c_id charger) of
          IsArray bookings \<Rightarrow>
            addDouble totalBookings
              (int (length (filter (\<lambda>b. status b \<noteq> ''cancelled'') bookings)))
        | NotArray \<Rightarrow> totalBookings
        | Throws \<Rightarrow> totalBookings,
        addDouble totalAvailableSlots (availableSlots charger))"

text \<open>
  \<^verbatim>\<open>loadStatistics()\<close>: the numbers written to the elements \<^verbatim>\<open>totalStations\<close>,
  \<^verbatim>\<open>totalBookings\<close> and \<^verbatim>\<open>totalSlots\<close>. The function reads the global
  \<^verbatim>\<open>ownerStations\<close> twice: at line 254, where the loop starts to iterate the array
  the global then holds, and at lines 267 to 273, after the loop. Every round of the
  loop awaits a booking request, and while it waits other tasks run: the refresh
  tick calls \<^verbatim>\<open>loadOwnerStations()\<close> without awaiting it, and line 70 of that function
  binds the global to a new array. So the function takes both values: the array the
  loop iterates and the array the global holds after the loop. With an empty array
  the loop awaits nothing and the second read sees the same array. With the three
  elements present nothing in the outer \<^verbatim>\<open>try\<close> block throws (\<^verbatim>\<open>loadRecentBookings\<close>
  catches its own errors and writes to another element), so the outer \<^verbatim>\<open>catch\<close> is
  not entered.
\<close>

record statistics =
  totalStations_text :: nat
  totalBookings_text :: int
  totalSlots_text :: int

definition loadStatistics ::
  "(string \<Rightarrow> booking api_result) \<Rightarrow> charger list \<Rightarrow> charger list \<Rightarrow> statistics" where
  "loadStatistics bookingsOf ownerStations ownerStationsAfterLoop =
     (let (totalBookings, totalAvailableSlots) = statisticsLoop bookingsOf ownerStations (0, 0);
          ownerStations = (if ownerStations = [] then ownerStations else ownerStationsAfterLoop);
          totalSlotsInUse =
            foldl (\<lambda>sum c. addDouble sum (subDouble (totalSlots c) (availableSlots c)))
              0 ownerStations
      in \<lparr>totalStations_text = length ownerStations,
          totalBookings_text = totalBookings,
          totalSlots_text = totalSlotsInUse\<rparr>)"

section \<open>Concrete instances\<close>

text \<open>
  Instances at which the properties below are evaluated: a platform that prints a
  number as its decimal expansion (at most 17 fractional digits; one digit, rounded
  half up on the exact value, for \<open>toFixed1\<close>), a network that
  answers every call in the same way, a fresh browser, and the three demo stations
  as records.
\<close>

definition digitChar :: "nat \<Rightarrow> char" where
  "digitChar n = ''0123456789'' ! (n mod 10)"

fun natDigits :: "nat \<Rightarrow> string" where
  "natDigits n = (if n < 10 then [digitChar n] else natDigits (n div 10) @ [digitChar n])"

declare natDigits.simps [simp del]

fun fracDigits :: "nat \<Rightarrow> rat \<Rightarrow> string" where
  "fracDigits 0 q = []"
| "fracDigits (Suc fuel) q =
     (if q = 0 then []
      else digitChar (nat \<lfloor>q * 10\<rfloor>) # fracDigits fuel (q * 10 - of_int \<lfloor>q * 10\<rfloor>))"

definition decimal :: "rat \<Rightarrow> string" where
  "decimal q =
     (let a = \<bar>q\<bar>; whole = \<lfloor>a\<rfloor>; digits = fracDigits 17 (a - of_int whole)
      in (if q < 0 then ''-'' else []) @ natDigits (nat whole) @
         (if digits = [] then [] else ''.'' @ digits))"

definition decimalFixed1 :: "rat \<Rightarrow> string" where
  "decimalFixed1 q =
     (let n = nat \<lfloor>\<bar>q\<bar> * 10 + 1 / 2\<rfloor>
      in (if q < 0 then ''-'' else []) @ natDigits (n div 10) @ ''.'' @ [digitChar n])"

definition decimalPlatform :: platform where
  "decimalPlatform =
     \<lparr>num_str = decimal, toFixed1 = decimalFixed1,
      abort_message = ''The user aborted a request.''\<rparr>"

definition always :: "fetch_outcome \<Rightarrow> network" where
  "always outcome url options = outcome"

definition freshBrowser :: browser where
  "freshBrowser = \<lparr>storage = Map.empty, reloads = 0, href = None, alerts = []\<rparr>"

definition demoStation1 :: charger where
  "demoStation1 =
     \<lparr>c_id = ''demo-1'', name = ''Oxford Street Hub'',
      address = Some ''123 Oxford Street, London W1D 2EH'',
      latitude = 51.5161, longitude = - 0.1426, chargerType = ''DC Fast'',
      totalSlots = 8, availableSlots = 6, rating = Some 4.8, description = None\<rparr>"

definition demoStation2 :: charger where
  "demoStation2 =
     \<lparr>c_id = ''demo-2'', name = ''Tower Bridge Plaza'',
      address = Some ''Tower Bridge, London SE1 2UP'',
      latitude = 51.5055, longitude = - 0.0754, chargerType = ''Level 2'',
      totalSlots = 6, availableSlots = 2, rating = Some 4.5, description = None\<rparr>"

definition demoStation3 :: charger where
  "demoStation3 =
     \<lparr>c_id = ''demo-3'', name = ''Green Park Station'',
      address = Some ''Green Park, London SW1A 1AX'',
      latitude = 51.5036, longitude = - 0.1496, chargerType = ''Level 2'',
      totalSlots = 4, availableSlots = 1, rating = Some 4.2, description = None\<rparr>"

definition demoBookings :: "string \<Rightarrow> booking api_result" where
  "demoBookings cid =
     (if cid = ''demo-1'' then IsArray [\<lparr>status = ''active''\<rparr>, \<lparr>status = ''cancelled''\<rparr>]
      else if cid = ''demo-2'' then NotArray
      else IsArray [\<lparr>status = ''completed''\<rparr>])"

section \<open>Vocabulary of the properties\<close>

text \<open>
  The bookings a pass over the stations has fetched for one station: the array the
  call returned, nothing when it returned something else or threw.
\<close>

definition fetchedBookings :: "(string \<Rightarrow> booking api_result) \<Rightarrow> charger \<Rightarrow> booking list" where
  "fetchedBookings bookingsOf c =
     (case bookingsOf (c_id c) of IsArray bookings \<Rightarrow> bookings | NotArray \<Rightarrow> [] | Throws \<Rightarrow> [])"

text \<open>The card of a station as a string (the callback never raises, see below).\<close>

definition cardText :: "platform \<Rightarrow> charger \<Rightarrow> string" where
  "cardText P c = (case chargerCard P c of Inl e \<Rightarrow> [] | Inr h \<Rightarrow> h)"

text \<open>
  The uniform failure shape \<^verbatim>\<open>{error: string, offline: true}\<close>, and the three ways a
  call can fail in transport: the fetch rejects (network error), it has not settled
  when the timer fires (timeout), or the body of the response cannot be decoded.
\<close>

definition isFailureShape :: "json \<Rightarrow> bool" where
  "isFailureShape r =
     (case optProp r ''error'' of
        Some (JStr msg) \<Rightarrow> r = failure msg
      | _ \<Rightarrow> False)"

fun settlesBefore :: "nat \<Rightarrow> fetch_outcome \<Rightarrow> bool" where
  "settlesBefore limit (Fulfils t code b) = (t < limit)"
| "settlesBefore limit (Rejects t msg) = (t < limit)"
| "settlesBefore limit NeverSettles = False"

fun transportFailure :: "fetch_outcome \<Rightarrow> bool" where
  "transportFailure (Rejects t msg) = True"
| "transportFailure NeverSettles = True"
| "transportFailure (Fulfils t code (BodyFails msg)) = True"
| "transportFailure (Fulfils t code (BodyJson j)) = (\<not> t < timeout_ms)"
| "transportFailure (Fulfils t code BodyNever) = (\<not> t < timeout_ms)"

fun bodyStalls :: "fetch_outcome \<Rightarrow> bool" where
  "bodyStalls (Fulfils t code BodyNever) = True"
| "bodyStalls (Fulfils t code (BodyJson j)) = False"
| "bodyStalls (Fulfils t code (BodyFails msg)) = False"
| "bodyStalls (Rejects t msg) = False"
| "bodyStalls NeverSettles = False"

text \<open>
  The markup skeleton of a fragment: its angle brackets, in order. A text field is
  present when it is a non-empty string. \<open>withTexts\<close> replaces the three text
  fields of a station. \<open>entityAmps\<close> holds of a text in which every ampersand starts
  one of the entities \<^verbatim>\<open>&amp;\<close>, \<^verbatim>\<open>&lt;\<close>, \<^verbatim>\<open>&gt;\<close>, \<^verbatim>\<open>&nbsp;\<close>.
\<close>

definition markup :: "string \<Rightarrow> string" where
  "markup html = filter (\<lambda>c. c = CHR ''<'' \<or> c = CHR ''>'') html"

fun present :: "string option \<Rightarrow> bool" where
  "present None = False"
| "present (Some s) = (s \<noteq> [])"

definition withTexts :: "charger \<Rightarrow> string \<Rightarrow> string option \<Rightarrow> string option \<Rightarrow> charger" where
  "withTexts c n a d = c\<lparr>name := n, address := a, description := d\<rparr>"

fun entityAmps :: "string \<Rightarrow> bool" where
  "entityAmps [] = True"
| "entityAmps (c # s) =
     ((if c = CHR ''&''
       then take 4 s = ''amp;'' \<or> take 3 s = ''lt;'' \<or> take 3 s = ''gt;'' \<or> take 5 s = ''nbsp;''
       else True) \<and> entityAmps s)"

text \<open>
  A fragment, as a function of one text field, takes the field through
  \<^verbatim>\<open>escapeHtml\<close>: it is a fixed text, then the escaped field, then a fixed text, for
  every non-empty value of the field.
\<close>

definition insertedEscaped :: "(string \<Rightarrow> string) \<Rightarrow> bool" where
  "insertedEscaped fragment \<longleftrightarrow>
     (\<exists>before after. \<forall>t. t \<noteq> [] \<longrightarrow> fragment t = before @ escapeHtml t @ after)"

section \<open>Properties of the double arithmetic\<close>

lemma round53_small:
  assumes "0 \<le> n" and "n < 2 ^ 53"
  shows "round53 n = n"
proof -
  have "bitlen n \<le> 53"
    using assms by (simp add: bitlen_le_iff_power)
  then show ?thesis
    by (simp add: round53_def)
qed

lemma round53_split:
  fixes n :: int
  defines "P \<equiv> 2 ^ nat (bitlen n - 53)"
  defines "q \<equiv> n div P" and "r \<equiv> n mod P"
  shows "n = q * P + r" and "0 \<le> r" and "r < P"
    and "round53 n = (if 2 * r < P then q * P
                      else if 2 * r > P then (q + 1) * P
                      else if even q then q * P else (q + 1) * P)"
proof -
  have "0 < P" by (simp add: P_def)
  then show "n = q * P + r" "0 \<le> r" "r < P"
    by (simp_all add: q_def r_def)
  show "round53 n = (if 2 * r < P then q * P
                      else if 2 * r > P then (q + 1) * P
                      else if even q then q * P else (q + 1) * P)"
    unfolding round53_def Let_def P_def q_def r_def ..
qed

lemma round53_half:
  "2 * \<bar>round53 n - n\<bar> \<le> 2 ^ nat (bitlen n - 53)"
proof -
  define P :: int where "P = 2 ^ nat (bitlen n - 53)"
  define q where "q = n div P"
  define r where "r = n mod P"
  note sp = round53_split [of n, folded P_def, folded q_def r_def]
  have "2 * \<bar>round53 n - (q * P + r)\<bar> \<le> P"
    unfolding sp(4) using sp(2,3) by (auto simp: algebra_simps)
  then have "2 * \<bar>round53 n - n\<bar> \<le> P"
    using sp(1) by simp
  then show ?thesis
    unfolding P_def .
qed

lemma round53_error:
  assumes "0 \<le> n"
  shows "\<bar>round53 n - n\<bar> * 2 ^ 53 \<le> n"
proof (cases "bitlen n \<le> 53")
  case True
  then show ?thesis using assms by (simp add: round53_def)
next
  case False
  define s where "s = nat (bitlen n - 53)"
  have npos: "0 < n" using False assms by (cases "n = 0") auto
  have s: "bitlen n = int s + 53" using False by (simp add: s_def)
  have "2 ^ nat (bitlen n - 1) \<le> n"
    using bitlen_bounds [OF npos] by simp
  moreover have "nat (bitlen n - 1) = s + 52"
    using s by simp
  ultimately have lower: "(2::int) ^ s * 2 ^ 52 \<le> n"
    by (simp add: power_add)
  have "2 * \<bar>round53 n - n\<bar> \<le> 2 ^ s"
    using round53_half [of n] by (simp add: s_def)
  then show ?thesis
    using lower by simp
qed

text \<open>A multiple of the spacing that lies less than half a spacing above n is the result.\<close>

lemma round53_grid:
  assumes "n = m * 2 ^ nat (bitlen n - 53) - e" and "0 \<le> e" and "2 * e < 2 ^ nat (bitlen n - 53)"
  shows "round53 n = m * 2 ^ nat (bitlen n - 53)"
proof -
  define P :: int where "P = 2 ^ nat (bitlen n - 53)"
  define q where "q = n div P"
  define r where "r = n mod P"
  note sp = round53_split [of n, folded P_def, folded q_def r_def]
  have Ppos: "0 < P" by (simp add: P_def)
  have n: "n = m * P - e" using assms(1) by (simp add: P_def)
  have e: "2 * e < P" using assms(3) by (simp add: P_def)
  show ?thesis
  proof (cases "e = 0")
    case True
    then have "n = m * P" using n by simp
    then have "q = m" "r = 0" using Ppos by (simp_all add: q_def r_def)
    then show ?thesis
      using sp(4) Ppos by (simp add: P_def)
  next
    case False
    then have epos: "0 < e" using assms(2) by simp
    have "n = (m - 1) * P + (P - e)"
      using n by (simp add: algebra_simps)
    moreover have "0 \<le> P - e" "P - e < P" using epos e by simp_all
    ultimately have "q = m - 1" "r = P - e"
      unfolding q_def r_def
      by (metis div_pos_pos_trivial div_mult_self3 add.commute add.right_neutral Ppos less_irrefl mult.commute,
          metis mod_mult_self3 mod_pos_pos_trivial add.commute mult.commute)
    then show ?thesis
      using sp(4) e epos by (simp add: P_def)
  qed
qed


lemma toDouble_nonneg: "0 \<le> n \<Longrightarrow> toDouble n = round53 n"
  by (simp add: toDouble_def)

lemma timesPoint3_multiple_of_ten:
  assumes "0 \<le> k" and "10 * k < 2 ^ 51"
  shows "round53 (10 * k * 5404319552844595) = 3 * k * 2 ^ 54"
proof (cases "k = 0")
  case True
  then show ?thesis by (simp add: round53_small)
next
  case False
  then have k: "1 \<le> k" using assms(1) by simp
  define n where "n = 10 * k * 5404319552844595"
  define s where "s = nat (bitlen n - 53)"
  have n: "n = 3 * k * 2 ^ 54 - 2 * k"
    by (simp add: n_def)
  have npos: "0 < n" using k by (simp add: n_def)
  have "2 ^ 53 \<le> n" using k by (simp add: n_def)
  then have lo: "54 \<le> bitlen n"
    by (simp add: bitlen_ge_iff_power)
  have "n < 2 ^ 107" using assms(2) by (simp add: n_def)
  then have hi: "bitlen n \<le> 107"
    by (simp add: bitlen_le_iff_power)
  have s1: "1 \<le> s" and s54: "s \<le> 54"
    using lo hi by (simp_all add: s_def)
  have bl: "nat (bitlen n) = s + 53"
    using lo by (simp add: s_def)
  have "n < 2 ^ nat (bitlen n)"
    using bitlen_bounds [OF npos] by simp
  then have "n < 2 ^ s * 2 ^ 53"
    by (simp add: bl power_add)
  then have gap: "2 * (2 * k) < (2::int) ^ s"
    using n k by simp
  have "(2::int) ^ 54 = 2 ^ (54 - s) * 2 ^ s"
    using s54 by (simp flip: power_add)
  then have grid: "n = (3 * k * 2 ^ (54 - s)) * 2 ^ s - 2 * k"
    using n by simp
  have "round53 n = (3 * k * 2 ^ (54 - s)) * 2 ^ s"
  proof (rule round53_grid [of n "3 * k * 2 ^ (54 - s)" "2 * k", folded s_def])
    show "n = 3 * k * 2 ^ (54 - s) * 2 ^ s - 2 * k" by (rule grid)
    show "0 \<le> 2 * k" using k by simp
    show "2 * (2 * k) < 2 ^ s" by (rule gap)
  qed
  also have "\<dots> = 3 * k * 2 ^ 54"
    using \<open>(2::int) ^ 54 = 2 ^ (54 - s) * 2 ^ s\<close> by simp
  finally show ?thesis
    by (simp add: n_def)
qed

lemma abs_times_bound:
  fixes d p m :: int
  assumes "\<bar>d\<bar> * p \<le> m" and "0 \<le> p"
  shows "- m \<le> d * p" and "d * p \<le> m"
proof -
  have "\<bar>d * p\<bar> = \<bar>d\<bar> * p"
    using assms(2) by (simp add: abs_mult)
  then have "\<bar>d * p\<bar> \<le> m"
    using assms(1) by simp
  then show "- m \<le> d * p" and "d * p \<le> m"
    by (simp_all only: abs_le_iff) linarith+
qed

lemma timesPoint3_ceiling:
  assumes "0 \<le> t" and "t < 2 ^ 51"
  shows "\<lceil>timesPoint3 t\<rceil> = (3 * t + 9) div 10"
proof (cases "10 dvd t")
  case True
  then obtain k where t: "t = 10 * k" by (auto simp: dvd_def)
  then have "0 \<le> k" "10 * k < 2 ^ 51" using assms by simp_all
  then have "round53 (t * 5404319552844595) = 3 * k * 2 ^ 54"
    using timesPoint3_multiple_of_ten [of k] t by simp
  then have "timesPoint3 t = of_int (3 * k)"
    using assms(1) by (simp add: timesPoint3_def toDouble_nonneg)
  then have "\<lceil>timesPoint3 t\<rceil> = 3 * k"
    by (simp only: ceiling_of_int)
  moreover have "(3 * t + 9) div 10 = 3 * k"
    unfolding t by presburger
  ultimately show ?thesis
    by simp
next
  case False
  define z where "z = (3 * t + 9) div 10"
  define R where "R = round53 (t * 5404319552844595)"
  have z: "3 * t + 1 \<le> 10 * z" "10 * z \<le> 3 * t + 9"
    using False unfolding z_def by presburger+
  have err: "\<bar>R - t * 5404319552844595\<bar> * 2 ^ 53 \<le> t * 5404319552844595"
    unfolding R_def using assms(1) by (intro round53_error) simp
  define D where "D = R - t * 5404319552844595"
  have "\<bar>D\<bar> * 2 ^ 53 \<le> t * 5404319552844595"
    using err by (simp only: D_def)
  from abs_times_bound [OF this]
  have err2: "- (t * 5404319552844595) \<le> D * 2 ^ 53" "D * 2 ^ 53 \<le> t * 5404319552844595"
    by simp_all
  have RD: "R = D + t * 5404319552844595"
    by (simp add: D_def)
  have bounds: "(z - 1) * 2 ^ 54 < R" "R \<le> z * 2 ^ 54"
    using z err2 assms unfolding RD by simp_all
  have tp: "timesPoint3 t = of_int R / 2 ^ 54"
    using assms(1) by (simp add: timesPoint3_def toDouble_nonneg R_def)
  have "of_int z - 1 < timesPoint3 t"
  proof -
    have "(of_int ((z - 1) * 2 ^ 54) :: rat) < of_int R"
      using bounds(1) by (simp only: of_int_less_iff)
    then show ?thesis
      unfolding tp by (simp add: field_simps)
  qed
  moreover have "timesPoint3 t \<le> of_int z"
  proof -
    have "(of_int R :: rat) \<le> of_int (z * 2 ^ 54)"
      using bounds(2) by (simp only: of_int_le_iff)
    then show ?thesis
      unfolding tp by (simp add: field_simps)
  qed
  ultimately show ?thesis
    unfolding z_def [symmetric] by (intro ceiling_unique) simp_all
qed


lemma round53_two_to_53: "round53 (2 ^ 53) = 2 ^ 53"
  by code_simp

lemma toDouble_exact:
  assumes "\<bar>n\<bar> \<le> 2 ^ 53"
  shows "toDouble n = n"
proof -
  have pos: "round53 m = m" if "0 \<le> m" "m \<le> 2 ^ 53" for m
  proof (cases "m = 2 ^ 53")
    case True
    then show ?thesis using round53_two_to_53 by simp
  next
    case False
    then show ?thesis using that by (intro round53_small) simp_all
  qed
  show ?thesis
  proof (cases "n < 0")
    case True
    then have "round53 (- n) = - n"
      using assms by (intro pos) simp_all
    then show ?thesis
      using True by (simp add: toDouble_def)
  next
    case False
    then have "round53 n = n"
      using assms by (intro pos) simp_all
    then show ?thesis
      using False by (simp add: toDouble_def)
  qed
qed

lemma addDouble_exact:
  assumes "0 \<le> x" and "0 \<le> y" and "x + y \<le> 2 ^ 53"
  shows "addDouble x y = x + y"
  unfolding addDouble_def using assms by (intro toDouble_exact) simp

lemma subDouble_exact:
  assumes "0 \<le> y" and "y \<le> x" and "x \<le> 2 ^ 53"
  shows "subDouble x y = x - y"
  unfolding subDouble_def using assms by (intro toDouble_exact) simp

section \<open>Properties of the status classification\<close>



text \<open>
  The three demo stations. And a total above the bound: with 8000000000000007 slots
  the double product is 2400000000000002 exactly, one below the ceiling of the exact
  product, so 2400000000000002 available slots are \<open>available\<close>.
\<close>

lemma demo_station_status:
  "getChargerStatus demoStation1 = ''available''"
  "getChargerStatus demoStation2 = ''available''"
  "getChargerStatus demoStation3 = ''limited''"
  by (simp_all add: getChargerStatus_def timesPoint3_ceiling demoStation1_def demoStation2_def
        demoStation3_def)

lemma getChargerStatus_beyond_bound:
  "\<lceil>timesPoint3 8000000000000007\<rceil> = 2400000000000002 \<and>
   \<lceil>real_of_int 8000000000000007 * 0.3\<rceil> = 2400000000000003 \<and>
   getChargerStatus (demoStation1\<lparr>totalSlots := 8000000000000007,
                                 availableSlots := 2400000000000002\<rparr>) = ''available''"
proof -
  have a: "\<lceil>timesPoint3 8000000000000007\<rceil> = 2400000000000002"
    by code_simp
  have b: "\<lceil>real_of_int 8000000000000007 * 0.3\<rceil> = 2400000000000003"
    by simp
  show ?thesis
    using a b by (simp add: getChargerStatus_def)
qed

section \<open>Properties of the owner statistics\<close>

lemma statisticsLoop_bookings:
  assumes "0 \<le> b"
    and "b + int (length (filter (\<lambda>x. status x \<noteq> ''cancelled'')
                           (concat (map (fetchedBookings bookingsOf) cs)))) \<le> 2 ^ 53"
  shows "fst (statisticsLoop bookingsOf cs (b, a)) =
           b + int (length (filter (\<lambda>x. status x \<noteq> ''cancelled'')
                              (concat (map (fetchedBookings bookingsOf) cs))))"
  using assms
proof (induction cs arbitrary: b a)
  case Nil
  then show ?case by simp
next
  case (Cons c cs)
  define k where "k = int (length (filter (\<lambda>x. status x \<noteq> ''cancelled'')
                                    (fetchedBookings bookingsOf c)))"
  define m where "m = int (length (filter (\<lambda>x. status x \<noteq> ''cancelled'')
                                    (concat (map (fetchedBookings bookingsOf) cs))))"
  have total: "b + (k + m) \<le> 2 ^ 53"
    using Cons.prems(2) by (simp add: k_def m_def)
  have k: "0 \<le> k" and m: "0 \<le> m"
    by (simp_all add: k_def m_def)
  have goal: "b + int (length (filter (\<lambda>x. status x \<noteq> ''cancelled'')
                (concat (map (fetchedBookings bookingsOf) (c # cs))))) = b + k + m"
    by (simp add: k_def m_def)
  have IH: "fst (statisticsLoop bookingsOf cs (b + k, a')) = b + k + m" for a'
    unfolding m_def using Cons.prems(1) k total
    by (intro Cons.IH) (simp_all add: m_def)
  have "fst (statisticsLoop bookingsOf (c # cs) (b, a)) = b + k + m"
  proof (cases "bookingsOf (c_id c)")
    case (IsArray bookings)
    then have fb: "k = int (length (filter (\<lambda>x. status x \<noteq> ''cancelled'') bookings))"
      by (simp add: k_def fetchedBookings_def)
    have step: "addDouble b k = b + k"
      using Cons.prems(1) k m total by (intro addDouble_exact) simp_all
    show ?thesis
      using IsArray IH [of "addDouble a (availableSlots c)"] step
      by (simp add: fb [symmetric])
  next
    case NotArray
    then have "k = 0"
      by (simp add: k_def fetchedBookings_def)
    then show ?thesis
      using NotArray IH [of "addDouble a (availableSlots c)"] by simp
  next
    case Throws
    then have "k = 0"
      by (simp add: k_def fetchedBookings_def)
    then show ?thesis
      using Throws IH [of "addDouble a (availableSlots c)"] by simp
  qed
  then show ?case
    using goal by simp
qed

lemma totalSlots_nonneg:
  assumes "\<forall>c\<in>set cs. 0 \<le> availableSlots c \<and> availableSlots c \<le> totalSlots c"
  shows "0 \<le> sum_list (map totalSlots cs)"
  using assms by (induction cs) auto

lemma slotsInUse_fold:
  assumes "\<forall>c\<in>set cs. 0 \<le> availableSlots c \<and> availableSlots c \<le> totalSlots c"
    and "0 \<le> a"
    and "a + sum_list (map totalSlots cs) \<le> 2 ^ 53"
  shows "foldl (\<lambda>sum c. addDouble sum (subDouble (totalSlots c) (availableSlots c))) a cs =
           a + (\<Sum>c\<leftarrow>cs. totalSlots c - availableSlots c)"
  using assms
proof (induction cs arbitrary: a)
  case Nil
  then show ?case by simp
next
  case (Cons c cs)
  have rest: "0 \<le> sum_list (map totalSlots cs)"
    using Cons.prems(1) by (intro totalSlots_nonneg) simp
  have c: "0 \<le> availableSlots c" "availableSlots c \<le> totalSlots c"
    using Cons.prems(1) by simp_all
  have bound: "a + totalSlots c + sum_list (map totalSlots cs) \<le> 2 ^ 53"
    using Cons.prems(3) by simp
  have sub: "subDouble (totalSlots c) (availableSlots c) = totalSlots c - availableSlots c"
    using c rest bound Cons.prems(2) by (intro subDouble_exact) simp_all
  have add: "addDouble a (totalSlots c - availableSlots c) = a + (totalSlots c - availableSlots c)"
    using c rest bound Cons.prems(2) by (intro addDouble_exact) simp_all
  have "foldl (\<lambda>sum c. addDouble sum (subDouble (totalSlots c) (availableSlots c)))
          (a + (totalSlots c - availableSlots c)) cs
        = (a + (totalSlots c - availableSlots c)) + (\<Sum>c\<leftarrow>cs. totalSlots c - availableSlots c)"
    using Cons.prems(1,2) c bound by (intro Cons.IH) simp_all
  then show ?case
    by (simp add: sub add)
qed

text \<open>
  Claim C9 fails as stated. When the global list is rebound while the loop awaits
  (here to the empty list, which is what a failed station request leaves), the
  bookings are those of the old list and the stations and slots those of the new
  one: no station, one booking. And the sums are sums of doubles: three stations of
  9007199254740991 slots in use give 27021597764222972.
\<close>

theorem loadStatistics_counterexample:
  "loadStatistics demoBookings [demoStation1] []
     = \<lparr>totalStations_text = 0, totalBookings_text = 1, totalSlots_text = 0\<rparr> \<and>
   totalSlots_text
     (loadStatistics demoBookings
        (replicate 3 (demoStation1\<lparr>totalSlots := 9007199254740991, availableSlots := 0\<rparr>))
        (replicate 3 (demoStation1\<lparr>totalSlots := 9007199254740991, availableSlots := 0\<rparr>)))
     = 27021597764222972 \<and>
   (3 * 9007199254740991 :: int) = 27021597764222973"
  by code_simp

text \<open>
  Claim C9, amended. When the global station list is not rebound while the loop
  awaits, every station has \<open>0 \<le> availableSlots \<le> totalSlots\<close>, and the sum of
  the slot counts and the number of counted bookings do not exceed \<open>2 ^ 53\<close>, the
  statistics report the number of stations, the number of fetched bookings whose
  status is not \<open>cancelled\<close>, and the sum over the stations of
  \<open>totalSlots - availableSlots\<close>.
\<close>

theorem loadStatistics_totals:
  assumes "\<forall>c\<in>set ownerStations. 0 \<le> availableSlots c \<and> availableSlots c \<le> totalSlots c"
    and "sum_list (map totalSlots ownerStations) \<le> 2 ^ 53"
    and "int (length (filter (\<lambda>b. status b \<noteq> ''cancelled'')
                        (concat (map (fetchedBookings bookingsOf) ownerStations)))) \<le> 2 ^ 53"
  shows "totalStations_text (loadStatistics bookingsOf ownerStations ownerStations)
           = length ownerStations \<and>
         totalBookings_text (loadStatistics bookingsOf ownerStations ownerStations) =
           int (length (filter (\<lambda>b. status b \<noteq> ''cancelled'')
                          (concat (map (fetchedBookings bookingsOf) ownerStations)))) \<and>
         totalSlots_text (loadStatistics bookingsOf ownerStations ownerStations) =
           (\<Sum>c\<leftarrow>ownerStations. totalSlots c - availableSlots c)"
proof -
  have bookings: "fst (statisticsLoop bookingsOf ownerStations (0, 0)) =
      int (length (filter (\<lambda>b. status b \<noteq> ''cancelled'')
                     (concat (map (fetchedBookings bookingsOf) ownerStations))))"
    using statisticsLoop_bookings [of 0 bookingsOf ownerStations 0] assms(3) by simp
  have slots: "foldl (\<lambda>sum c. addDouble sum (subDouble (totalSlots c) (availableSlots c)))
                 0 ownerStations
               = (\<Sum>c\<leftarrow>ownerStations. totalSlots c - availableSlots c)"
    using slotsInUse_fold [of ownerStations 0] assms(1,2) by simp
  show ?thesis
    using bookings slots by (simp add: loadStatistics_def split_beta)
qed

theorem loadStatistics_totals_witness:
  "totalStations_text (loadStatistics demoBookings [demoStation1, demoStation2, demoStation3]
                         [demoStation1, demoStation2, demoStation3]) = 3 \<and>
   totalBookings_text (loadStatistics demoBookings [demoStation1, demoStation2, demoStation3]
                         [demoStation1, demoStation2, demoStation3]) = 2 \<and>
   totalSlots_text (loadStatistics demoBookings [demoStation1, demoStation2, demoStation3]
                      [demoStation1, demoStation2, demoStation3]) = 9"
  using loadStatistics_totals [of "[demoStation1, demoStation2, demoStation3]" demoBookings]
  by (simp add: fetchedBookings_def demoBookings_def demoStation1_def demoStation2_def
        demoStation3_def)

section \<open>Properties of the sidebar list\<close>

lemma statusClass_getChargerStatus: "statusClass (getChargerStatus c) \<noteq> None"
  by (simp add: statusClass_def getChargerStatus_def)

lemma chargerCard_cardText: "chargerCard P c = Inr (cardText P c)"
  using statusClass_getChargerStatus [of c]
  by (auto simp: cardText_def chargerCard_def Let_def split: option.splits)

lemma cardText_nonempty: "cardText P c \<noteq> []"
  using statusClass_getChargerStatus [of c]
  by (auto simp: cardText_def chargerCard_def cardOpenTag_def Let_def split: option.splits)

lemma forEachCard_concat:
  "forEachCard P cs html = Inr (html @ concat (map (cardText P) cs))"
  by (induction cs arbitrary: html) (simp_all add: chargerCard_cardText)

text \<open>
  Claim C10. The sidebar shows the first ten stations of the list in list order:
  a list of \<open>n\<close> stations gives exactly \<open>min n 10\<close> cards, the cards of the first
  stations, and their concatenation is what is written to the container; for the
  empty list the placeholder paragraph is written instead.
\<close>

theorem renderChargersList_first_ten:
  \<open>\<exists>cards. length cards = min (length chargers) 10 \<and>
           map (chargerCard P) (take 10 chargers) = map Inr cards \<and>
           renderChargersList P True chargers =
             Inr (Some (if chargers = [] then ''<p class="text-muted">No chargers available</p>''
                        else concat cards))\<close>
proof (intro exI conjI)
  show "length (map (cardText P) (take 10 chargers)) = min (length chargers) 10"
    by simp
  show "map (chargerCard P) (take 10 chargers) = map Inr (map (cardText P) (take 10 chargers))"
    by (simp add: chargerCard_cardText)
  show \<open>renderChargersList P True chargers =
          Inr (Some (if chargers = [] then ''<p class="text-muted">No chargers available</p>''
                     else concat (map (cardText P) (take 10 chargers))))\<close>
  proof (cases chargers)
    case Nil
    then show ?thesis by (simp add: renderChargersList_def)
  next
    case (Cons c cs)
    then show ?thesis
      by (simp add: renderChargersList_def forEachCard_concat cardText_nonempty)
  qed
qed

theorem renderChargersList_first_ten_witness:
  \<open>(\<exists>cards. length cards = 10 \<and>
      renderChargersList decimalPlatform True (replicate 12 demoStation1) = Inr (Some (concat cards))) \<and>
   renderChargersList decimalPlatform True []
     = Inr (Some ''<p class="text-muted">No chargers available</p>'')\<close>
  using renderChargersList_first_ten [of "replicate 12 demoStation1" decimalPlatform]
    renderChargersList_first_ten [of "[]" decimalPlatform]
  by auto

section \<open>Properties of the API client\<close>

lemma isFailureShape_iff: "isFailureShape r \<longleftrightarrow> (\<exists>msg. r = failure msg)"
proof
  assume "isFailureShape r"
  then show "\<exists>msg. r = failure msg"
    by (auto simp: isFailureShape_def split: option.splits json.splits)
next
  assume "\<exists>msg. r = failure msg"
  then show "isFailureShape r"
    by (auto simp: isFailureShape_def failure_def)
qed

lemma isFailureShape_failure: "isFailureShape (failure msg)"
  by (simp add: isFailureShape_def failure_def)

text \<open>
  Claim C3 fails as stated: a response with a non-2xx status whose body is JSON is
  handed to the caller as it is.
\<close>

theorem request_non2xx_counterexample:
  "fst (request decimalPlatform
          (always (Fulfils 50 404 (BodyJson (JObj [(''message'', JStr ''Not found'')]))))
          ''GET'' ''/chargers/42'' None freshBrowser)
     = Some (JObj [(''message'', JStr ''Not found'')]) \<and>
   \<not> isFailureShape (JObj [(''message'', JStr ''Not found'')])"
  by (simp add: request_def always_def timeout_ms_def isFailureShape_def)

text \<open>
  Claim C3, amended. A transport failure (the fetch rejects, the fetch has not settled
  when the timer fires, or the body of the response cannot be decoded) is returned as
  the failure shape; a response that arrives in time with a JSON body is returned as
  the decoded body, whatever its status. The function has no other way to end than
  returning, so no exception of the transport reaches the caller.
\<close>

theorem request_failure_shape:
  assumes "fetch (API_BASE @ endpoint) (requestOptions P meth data st) = outcome"
  shows "(transportFailure outcome \<longrightarrow>
            (\<exists>r. fst (request P fetch meth endpoint data st) = Some r \<and> isFailureShape r)) \<and>
         (outcome = Fulfils t code (BodyJson j) \<and> t < timeout_ms \<longrightarrow>
            fst (request P fetch meth endpoint data st) = Some j)"
proof (intro conjI impI)
  assume "transportFailure outcome"
  then show "\<exists>r. fst (request P fetch meth endpoint data st) = Some r \<and> isFailureShape r"
    using assms
    by (cases outcome rule: transportFailure.cases)
       (auto simp: request_def isFailureShape_failure)
next
  assume "outcome = Fulfils t code (BodyJson j) \<and> t < timeout_ms"
  then show "fst (request P fetch meth endpoint data st) = Some j"
    using assms by (simp add: request_def Let_def)
qed

theorem request_failure_shape_witness:
  "(\<exists>r. fst (request decimalPlatform (always (Rejects 30 ''Failed to fetch''))
               ''GET'' ''/chargers'' None freshBrowser) = Some r \<and> isFailureShape r) \<and>
   fst (request decimalPlatform (always (Fulfils 50 500 (BodyJson (JStr ''server error''))))
          ''GET'' ''/chargers'' None freshBrowser) = Some (JStr ''server error'')"
  using request_failure_shape
          [of "always (Rejects 30 ''Failed to fetch'')" "''/chargers''" decimalPlatform
              "''GET''" None freshBrowser "Rejects 30 ''Failed to fetch''" 0 0 JNull]
    request_failure_shape
          [of "always (Fulfils 50 500 (BodyJson (JStr ''server error'')))" "''/chargers''" decimalPlatform
              "''GET''" None freshBrowser "Fulfils 50 500 (BodyJson (JStr ''server error''))"
              50 500 "JStr ''server error''"]
  by (simp add: always_def timeout_ms_def)

text \<open>
  Claim C5. When the fetch fulfils, inside the timer window, with status 401, the
  call removes the keys \<open>token\<close> and \<open>user\<close> from local storage, leaves the other
  keys alone, and reloads the page once.
\<close>

theorem request_401_clears_session:
  assumes "fetch (API_BASE @ endpoint) (requestOptions P meth data st) = Fulfils t 401 b"
    and "t < timeout_ms"
  shows "storage (snd (request P fetch meth endpoint data st))
           = (storage st)(''token'' := None, ''user'' := None) \<and>
         reloads (snd (request P fetch meth endpoint data st)) = reloads st + 1"
  using assms by (simp add: request_def Let_def split: body_outcome.splits)

theorem request_401_clears_session_witness:
  "storage (snd (request decimalPlatform (always (Fulfils 120 401 (BodyJson (JObj [(''message'', JStr ''Token expired'')]))))
            ''GET'' ''/users/profile'' None
            (freshBrowser\<lparr>storage := [''token'' \<mapsto> ''abc'', ''user'' \<mapsto> ''{}'', ''theme'' \<mapsto> ''dark'']\<rparr>)))
     = [''theme'' \<mapsto> ''dark''] \<and>
   reloads (snd (request decimalPlatform (always (Fulfils 120 401 (BodyJson (JObj [(''message'', JStr ''Token expired'')]))))
            ''GET'' ''/users/profile'' None
            (freshBrowser\<lparr>storage := [''token'' \<mapsto> ''abc'', ''user'' \<mapsto> ''{}'', ''theme'' \<mapsto> ''dark'']\<rparr>))) = 1"
  using request_401_clears_session
          [of "always (Fulfils 120 401 (BodyJson (JObj [(''message'', JStr ''Token expired'')])))"
              "''/users/profile''" decimalPlatform "''GET''" None
              "freshBrowser\<lparr>storage := [''token'' \<mapsto> ''abc'', ''user'' \<mapsto> ''{}'', ''theme'' \<mapsto> ''dark'']\<rparr>"
              120 "BodyJson (JObj [(''message'', JStr ''Token expired'')])"]
  by (auto simp: always_def timeout_ms_def freshBrowser_def fun_upd_def)

text \<open>No other outcome touches the browser state.\<close>

lemma request_state_unchanged:
  assumes "fetch (API_BASE @ endpoint) (requestOptions P meth data st) = outcome"
    and "\<And>t b. outcome = Fulfils t 401 b \<Longrightarrow> \<not> t < timeout_ms"
  shows "snd (request P fetch meth endpoint data st) = st"
  using assms
  by (cases outcome) (auto simp: request_def Let_def split: body_outcome.splits)

text \<open>
  Claim C6 against the code. The timer is cleared as soon as the fetch has fulfilled,
  before the body is read: a response whose headers arrive in time and whose body
  never completes is not aborted, and the call never returns.
\<close>

theorem request_stalled_body_hangs:
  "fst (request decimalPlatform (always (Fulfils 50 200 BodyNever))
          ''GET'' ''/chargers'' None freshBrowser) = None"
  by (simp add: request_def always_def timeout_ms_def)

text \<open>
  What the timer does guarantee. It runs for 10 seconds and guards the fetch: a fetch
  that has not settled when it fires is aborted, and the call returns the failure
  shape with the browser state untouched. A fetch that settles earlier stops the
  timer; the call then returns unless the body of the response never completes.
\<close>

lemma request_timeout_aborts:
  assumes "fetch (API_BASE @ endpoint) (requestOptions P meth data st) = outcome"
  shows "timeout_ms = 10000 \<and>
         (\<not> settlesBefore timeout_ms outcome \<longrightarrow>
            request P fetch meth endpoint data st = (Some (failure (abort_message P)), st)) \<and>
         (settlesBefore timeout_ms outcome \<longrightarrow>
            (fst (request P fetch meth endpoint data st) = None \<longleftrightarrow> bodyStalls outcome))"
  using assms
  by (cases outcome rule: bodyStalls.cases)
     (auto simp: request_def Let_def timeout_ms_def)

lemma request_timeout_aborts_example:
  "request decimalPlatform (always NeverSettles) ''GET'' ''/chargers'' None freshBrowser
     = (Some (failure ''The user aborted a request.''), freshBrowser) \<and>
   request decimalPlatform (always (Fulfils 12000 200 (BodyJson (JArr []))))
       ''GET'' ''/chargers'' None freshBrowser
     = (Some (failure ''The user aborted a request.''), freshBrowser) \<and>
   fst (request decimalPlatform (always (Fulfils 800 200 (BodyJson (JArr []))))
       ''GET'' ''/chargers'' None freshBrowser) \<noteq> None"
  using request_timeout_aborts [of "always NeverSettles" "''/chargers''" decimalPlatform
          "''GET''" None freshBrowser NeverSettles]
    request_timeout_aborts [of "always (Fulfils 12000 200 (BodyJson (JArr [])))" "''/chargers''"
          decimalPlatform "''GET''" None freshBrowser "Fulfils 12000 200 (BodyJson (JArr []))"]
    request_timeout_aborts [of "always (Fulfils 800 200 (BodyJson (JArr [])))" "''/chargers''"
          decimalPlatform "''GET''" None freshBrowser "Fulfils 800 200 (BodyJson (JArr []))"]
  by (simp add: always_def decimalPlatform_def)

section \<open>Properties of the fallback endpoints\<close>

lemma errorOrOffline_nonnull:
  assumes "result \<noteq> JNull"
  shows "errorOrOffline result =
           Inr (truthy (optProp result ''error'') \<or> truthy (optProp result ''offline''))"
  using assms by (cases result) (simp_all add: errorOrOffline_def)

lemma errorOrOffline_failure: "errorOrOffline (failure msg) = Inr True"
  by (simp add: errorOrOffline_def failure_def)

text \<open>
  Claim C4 fails as stated. The test is the truthiness of the two properties, not
  their presence: a result that carries \<^verbatim>\<open>offline: false\<close> is returned as it is. And
  a result that carries neither field is not always returned: on \<^verbatim>\<open>null\<close> the test
  itself raises a TypeError.
\<close>

theorem fallback_counterexample:
  "optProp (JObj [(''offline'', JBool False)]) ''offline'' = Some (JBool False) \<and>
   fst (getAllChargers decimalPlatform
          (always (Fulfils 50 200 (BodyJson (JObj [(''offline'', JBool False)])))) freshBrowser)
     = Some (Inr (JObj [(''offline'', JBool False)])) \<and>
   JObj [(''offline'', JBool False)] \<noteq> DEMO_CHARGERS \<and>
   fst (getLeaderboard decimalPlatform (always (Fulfils 50 200 (BodyJson JNull))) freshBrowser)
     = Some (Inl TypeError)"
  by (simp add: getAllChargers_def getLeaderboard_def request_def always_def timeout_ms_def
        errorOrOffline_def DEMO_CHARGERS_def)

text \<open>
  Claim C4, amended. For a transport result other than \<^verbatim>\<open>null\<close>: when its \<^verbatim>\<open>error\<close>
  or its \<^verbatim>\<open>offline\<close> property is truthy, \<^verbatim>\<open>getAllChargers\<close> returns exactly
  \<^verbatim>\<open>DEMO_CHARGERS\<close> and \<^verbatim>\<open>getLeaderboard\<close> exactly \<^verbatim>\<open>DEMO_LEADERBOARD\<close>; otherwise
  each returns the transport result unchanged.
\<close>

theorem fallback_datasets:
  assumes "result \<noteq> JNull"
  shows "(request P fetch ''GET'' ''/chargers'' None st = (Some result, st') \<longrightarrow>
            getAllChargers P fetch st =
              (Some (Inr (if truthy (optProp result ''error'') \<or> truthy (optProp result ''offline'')
                          then DEMO_CHARGERS else result)), st')) \<and>
         (request P fetch ''GET'' ''/users/leaderboard'' None st = (Some result, st') \<longrightarrow>
            getLeaderboard P fetch st =
              (Some (Inr (if truthy (optProp result ''error'') \<or> truthy (optProp result ''offline'')
                          then DEMO_LEADERBOARD else result)), st'))"
  using assms
  by (simp add: getAllChargers_def getLeaderboard_def errorOrOffline_nonnull)

theorem fallback_datasets_witness:
  "getAllChargers decimalPlatform (always (Rejects 30 ''Failed to fetch'')) freshBrowser
     = (Some (Inr DEMO_CHARGERS), freshBrowser) \<and>
   getLeaderboard decimalPlatform (always (Rejects 30 ''Failed to fetch'')) freshBrowser
     = (Some (Inr DEMO_LEADERBOARD), freshBrowser)"
proof -
  have r: "request decimalPlatform (always (Rejects 30 ''Failed to fetch'')) ''GET'' endpoint None
             freshBrowser = (Some (failure ''Failed to fetch''), freshBrowser)" for endpoint
    by (simp add: request_def always_def timeout_ms_def)
  have n: "failure ''Failed to fetch'' \<noteq> JNull"
    by (simp add: failure_def)
  show ?thesis
    using fallback_datasets [OF n, of decimalPlatform "always (Rejects 30 ''Failed to fetch'')"
            freshBrowser freshBrowser] r
    by (simp add: failure_def)
qed

text \<open>Every transport failure ends in the demo dataset, a stalled body in no result.\<close>

lemma getAllChargers_transport_failure:
  assumes "fetch (API_BASE @ ''/chargers'') (requestOptions P ''GET'' None st) = outcome"
    and "transportFailure outcome"
  shows "fst (getAllChargers P fetch st) = Some (Inr DEMO_CHARGERS)"
  using assms
  by (cases outcome rule: transportFailure.cases)
     (auto simp: getAllChargers_def request_def errorOrOffline_failure)

lemma getLeaderboard_transport_failure:
  assumes "fetch (API_BASE @ ''/users/leaderboard'') (requestOptions P ''GET'' None st) = outcome"
    and "transportFailure outcome"
  shows "fst (getLeaderboard P fetch st) = Some (Inr DEMO_LEADERBOARD)"
  using assms
  by (cases outcome rule: transportFailure.cases)
     (auto simp: getLeaderboard_def request_def errorOrOffline_failure)

section \<open>Properties of the login\<close>

lemma truthy_token_truthy_result:
  assumes "truthy (optProp result ''token'')"
  shows "truthy (Some result)"
  using assms by (cases result) simp_all

text \<open>
  Claim C7. When the login request is answered (in time, with a status other than
  401) by a payload that contains a token while the role of the returned user is not
  the role of the portal, \<^verbatim>\<open>Auth.login\<close> returns with local storage, the location and
  the reload count as they were; all it does is show one alert.
\<close>

theorem login_role_mismatch:
  assumes "fetch (API_BASE @ ''/auth/login'')
             (requestOptions P ''POST''
                (Some (JObj [(''email'', JStr email), (''password'', JStr password)])) st)
           = Fulfils t code (BodyJson result)"
    and "t < timeout_ms"
    and "code \<noteq> 401"
    and "truthy (optProp result ''token'')"
    and "getPropU (optProp result ''user'') ''role'' \<noteq> Inr (Some (JStr role))"
  shows "\<exists>st' a. login P fetch email password role st = Some st' \<and>
                 storage st' = storage st \<and> href st' = href st \<and>
                 reloads st' = reloads st \<and> alerts st' = alerts st @ [a]"
proof -
  have req: "API_login P fetch email password st = (Some result, st)"
    using assms(1-3) by (simp add: API_login_def request_def Let_def)
  have res: "truthy (Some result)"
    using assms(4) by (rule truthy_token_truthy_result)
  show ?thesis
  proof (cases "getPropU (optProp result ''user'') ''role''")
    case (Inl e)
    then show ?thesis
      using req res assms(4) by (simp add: login_def)
  next
    case (Inr userRole)
    then have "userRole \<noteq> Some (JStr role)"
      using assms(5) by simp
    then show ?thesis
      using Inr req res assms(4) by (simp add: login_def)
  qed
qed

theorem login_role_mismatch_witness:
  "\<exists>st' a. login decimalPlatform
       (always (Fulfils 90 200 (BodyJson (JObj [(''token'', JStr ''jwt''),
          (''user'', JObj [(''name'', JStr ''Olive''), (''role'', JStr ''owner'')])]))))
       ''olive@example.com'' ''password123'' ''user''
       (freshBrowser\<lparr>storage := [''theme'' \<mapsto> ''dark'']\<rparr>) = Some st' \<and>
     storage st' = [''theme'' \<mapsto> ''dark''] \<and> href st' = None \<and> reloads st' = 0 \<and>
     alerts st' = [a]"
  using login_role_mismatch
    [of "always (Fulfils 90 200 (BodyJson (JObj [(''token'', JStr ''jwt''),
          (''user'', JObj [(''name'', JStr ''Olive''), (''role'', JStr ''owner'')])])))"
        decimalPlatform "''olive@example.com''" "''password123''"
        "freshBrowser\<lparr>storage := [''theme'' \<mapsto> ''dark'']\<rparr>" 90 200
        "JObj [(''token'', JStr ''jwt''),
          (''user'', JObj [(''name'', JStr ''Olive''), (''role'', JStr ''owner'')])]"
        "''user''"]
  by (simp add: always_def timeout_ms_def freshBrowser_def)

text \<open>With the matching role the same payload is stored and the page redirected.\<close>

lemma login_matching_role:
  "map_option (\<lambda>st'. (storage st' ''token'', href st'))
     (login decimalPlatform
       (always (Fulfils 90 200 (BodyJson (JObj [(''token'', JStr ''jwt''),
          (''user'', JObj [(''name'', JStr ''Olive''), (''role'', JStr ''owner'')])]))))
       ''olive@example.com'' ''password123'' ''owner'' freshBrowser)
   = Some (Some ''jwt'', Some ''/public/owner.html'')"
  by (simp add: login_def API_login_def request_def always_def timeout_ms_def freshBrowser_def)

section \<open>Escaping of user-supplied text\<close>

lemma markup_append: "markup (a @ b) = markup a @ markup b"
  by (simp add: markup_def)

lemma markup_escapeChar: "markup (escapeChar c) = []"
  by (simp add: markup_def escapeChar_def)

lemma markup_escapeHtml: "markup (escapeHtml s) = []"
  by (induction s) (simp_all add: escapeHtml_def markup_append markup_escapeChar, simp add: markup_def)

lemma escapeHtml_no_angle: "CHR ''<'' \<notin> set (escapeHtml s) \<and> CHR ''>'' \<notin> set (escapeHtml s)"
proof -
  have "set (markup (escapeHtml s)) = {}"
    by (simp add: markup_escapeHtml)
  then show ?thesis
    by (auto simp: markup_def)
qed

lemma entityAmps_escapeHtml: "entityAmps (escapeHtml s)"
  by (induction s) (simp_all add: escapeHtml_def escapeChar_def)

lemma escapeHtml_keeps_quotes:
  "filter (\<lambda>c. c = CHR 0x22) (escapeHtml s) = filter (\<lambda>c. c = CHR 0x22) s"
  by (induction s) (simp_all add: escapeHtml_def escapeChar_def)

lemma createMarkerPopup_markup:
  assumes "present a = present (address c)" and "present d = present (description c)"
  shows "markup (createMarkerPopup P u (withTexts c n a d) s) = markup (createMarkerPopup P u c s)"
  using assms
  by (cases a; cases "address c"; cases d; cases "description c")
     (simp_all add: createMarkerPopup_def withTexts_def Let_def markup_append markup_escapeHtml
        del: append.simps)

lemma showChargerDetail_markup:
  assumes "present a = present (address c)" and "present d = present (description c)"
  shows "markup (modalBody (showChargerDetail P (withTexts c n a d)))
           = markup (modalBody (showChargerDetail P c))"
  using assms
  by (cases a; cases "address c"; cases d; cases "description c")
     (simp_all add: showChargerDetail_def withTexts_def Let_def markup_append markup_escapeHtml
        getChargerStatus_def del: append.simps)

lemma cardContent_markup:
  assumes "present a = present (address c)" and "present d = present (description c)"
  shows "markup (cardContent P (withTexts c n a d) s b) = markup (cardContent P c s b)"
  using assms
  by (cases a; cases "address c"; cases d; cases "description c")
     (simp_all add: cardContent_def withTexts_def Let_def markup_append markup_escapeHtml
        del: append.simps)

text \<open>
  Claim C2 fails as stated. \<^verbatim>\<open>escapeHtml\<close> leaves a double quote as it is, so the popup
  of a station named \<^verbatim>\<open>R&D "Fast" Hub\<close> shows the quotes unescaped. And the
  \<^verbatim>\<open>onclick\<close> attribute of the sidebar card holds the serialised station with only
  the double quotes replaced, so the ampersand of the name is there unescaped.
\<close>

theorem escaping_counterexample:
  \<open>sublist ''>R&amp;D "Fast" Hub</strong>''
     (createMarkerPopup decimalPlatform None
        (demoStation1\<lparr>name := ''R&D "Fast" Hub''\<rparr>) ''available'') \<and>
   sublist ''&quot;name&quot;:&quot;R&D ''
     (cardOpenTag decimalPlatform (demoStation1\<lparr>name := ''R&D "Fast" Hub''\<rparr>)
        ''border-success'')\<close>
  by code_simp

lemma insertedEscaped_here: "insertedEscaped (\<lambda>t. escapeHtml t @ R)"
  unfolding insertedEscaped_def by (rule exI [of _ "[]"], rule exI [of _ R]) simp

lemma insertedEscaped_here_orElse: "insertedEscaped (\<lambda>t. escapeHtml (orElse (Some t) d) @ R)"
  unfolding insertedEscaped_def by (rule exI [of _ "[]"], rule exI [of _ R]) simp

lemma insertedEscaped_prepend:
  assumes "insertedEscaped G"
  shows "insertedEscaped (\<lambda>t. A @ G t)"
proof -
  from assms obtain b a where "\<forall>t. t \<noteq> [] \<longrightarrow> G t = b @ escapeHtml t @ a"
    unfolding insertedEscaped_def by blast
  then have "\<forall>t. t \<noteq> [] \<longrightarrow> A @ G t = (A @ b) @ escapeHtml t @ a"
    by simp
  then show ?thesis
    unfolding insertedEscaped_def by blast
qed

lemma insertedEscaped_append:
  assumes "insertedEscaped G"
  shows "insertedEscaped (\<lambda>t. G t @ R)"
proof -
  from assms obtain b a where "\<forall>t. t \<noteq> [] \<longrightarrow> G t = b @ escapeHtml t @ a"
    unfolding insertedEscaped_def by blast
  then have "\<forall>t. t \<noteq> [] \<longrightarrow> G t @ R = b @ escapeHtml t @ (a @ R)"
    by simp
  then show ?thesis
    unfolding insertedEscaped_def by blast
qed

lemma insertedEscaped_if:
  assumes "insertedEscaped G"
  shows "insertedEscaped (\<lambda>t. if t \<noteq> [] then G t else H t)"
  using assms unfolding insertedEscaped_def by auto

lemmas insertedEscaped_intros =
  insertedEscaped_here insertedEscaped_here_orElse insertedEscaped_prepend
  insertedEscaped_append insertedEscaped_if

lemma createMarkerPopup_name: "insertedEscaped (\<lambda>t. createMarkerPopup P u (c\<lparr>name := t\<rparr>) s)"
  unfolding createMarkerPopup_def Let_def
  apply (simp del: append.simps split del: if_split cong: if_cong)
  apply (intro insertedEscaped_intros)
  done

lemma createMarkerPopup_address: "insertedEscaped (\<lambda>t. createMarkerPopup P u (c\<lparr>address := Some t\<rparr>) s)"
  unfolding createMarkerPopup_def Let_def
  apply (simp del: append.simps split del: if_split cong: if_cong)
  apply (intro insertedEscaped_intros)
  done

lemma createMarkerPopup_description: "insertedEscaped (\<lambda>t. createMarkerPopup P u (c\<lparr>description := Some t\<rparr>) s)"
  unfolding createMarkerPopup_def Let_def
  apply (simp del: append.simps split del: if_split cong: if_cong)
  apply (intro insertedEscaped_intros)
  done

lemma cardContent_name: "insertedEscaped (\<lambda>t. cardContent P (c\<lparr>name := t\<rparr>) s b)"
  unfolding cardContent_def
  apply (simp del: append.simps orElse.simps split del: if_split cong: if_cong)
  apply (intro insertedEscaped_intros)
  done

lemma cardContent_address: "insertedEscaped (\<lambda>t. cardContent P (c\<lparr>address := Some t\<rparr>) s b)"
  unfolding cardContent_def
  apply (simp del: append.simps orElse.simps split del: if_split cong: if_cong)
  apply (intro insertedEscaped_intros)
  done

lemma showChargerDetail_address: "insertedEscaped (\<lambda>t. modalBody (showChargerDetail P (c\<lparr>address := Some t\<rparr>)))"
  unfolding showChargerDetail_def Let_def
  apply (simp del: append.simps orElse.simps split del: if_split cong: if_cong add: getChargerStatus_def)
  apply (intro insertedEscaped_intros)
  done

lemma showChargerDetail_description: "insertedEscaped (\<lambda>t. modalBody (showChargerDetail P (c\<lparr>description := Some t\<rparr>)))"
  unfolding showChargerDetail_def Let_def
  apply (simp del: append.simps orElse.simps split del: if_split cong: if_cong add: getChargerStatus_def)
  apply (intro insertedEscaped_intros)
  done

lemma escapeHtml_append: "escapeHtml (s @ t) = escapeHtml s @ escapeHtml t"
  by (simp add: escapeHtml_def)

lemma escapeHtml_single: "escapeHtml [x] = escapeChar x"
  by (simp add: escapeHtml_def)

text \<open>
  Claim C2, amended. \<^verbatim>\<open>escapeHtml\<close> works character by character: it replaces
  \<^verbatim>\<open>&\<close>, \<^verbatim>\<open><\<close>, \<^verbatim>\<open>>\<close> and the no-break space by their entities and leaves every
  other character, the double quote included, as it is; so its result has no angle
  bracket and no ampersand that does not start an entity. The map popup takes the
  name, the address and the description of a station through it, the content of a
  sidebar card the name and the address, the body of the detail modal the address
  and the description: each fragment is a fixed text, then the escaped field, then
  a fixed text.
\<close>

theorem user_text_escaped:
  \<open>escapeHtml (s @ t) = escapeHtml s @ escapeHtml t \<and>
   escapeHtml ''&'' = ''&amp;'' \<and> escapeHtml ''<'' = ''&lt;'' \<and> escapeHtml ''>'' = ''&gt;'' \<and>
   escapeHtml [CHR 0xA0] = ''&nbsp;'' \<and> escapeHtml ''"'' = ''"'' \<and>
   (x \<notin> {CHR ''&'', CHR ''<'', CHR ''>'', CHR 0xA0} \<longrightarrow> escapeHtml [x] = [x]) \<and>
   CHR ''<'' \<notin> set (escapeHtml s) \<and> CHR ''>'' \<notin> set (escapeHtml s) \<and>
   entityAmps (escapeHtml s) \<and>
   insertedEscaped (\<lambda>v. createMarkerPopup P u (c\<lparr>name := v\<rparr>) st) \<and>
   insertedEscaped (\<lambda>v. createMarkerPopup P u (c\<lparr>address := Some v\<rparr>) st) \<and>
   insertedEscaped (\<lambda>v. createMarkerPopup P u (c\<lparr>description := Some v\<rparr>) st) \<and>
   insertedEscaped (\<lambda>v. cardContent P (c\<lparr>name := v\<rparr>) st b) \<and>
   insertedEscaped (\<lambda>v. cardContent P (c\<lparr>address := Some v\<rparr>) st b) \<and>
   insertedEscaped (\<lambda>v. modalBody (showChargerDetail P (c\<lparr>address := Some v\<rparr>))) \<and>
   insertedEscaped (\<lambda>v. modalBody (showChargerDetail P (c\<lparr>description := Some v\<rparr>)))\<close>
proof -
  have chars: \<open>escapeHtml ''&'' = ''&amp;''\<close> \<open>escapeHtml ''<'' = ''&lt;''\<close>
      \<open>escapeHtml ''>'' = ''&gt;''\<close> \<open>escapeHtml [CHR 0xA0] = ''&nbsp;''\<close>
      \<open>escapeHtml ''"'' = ''"''\<close>
    by (simp_all add: escapeHtml_single escapeChar_def)
  have other: "x \<notin> {CHR ''&'', CHR ''<'', CHR ''>'', CHR 0xA0} \<longrightarrow> escapeHtml [x] = [x]"
    by (simp add: escapeHtml_single escapeChar_def)
  show ?thesis
    using chars other escapeHtml_append [of s t] escapeHtml_no_angle [of s]
      entityAmps_escapeHtml [of s]
      createMarkerPopup_name [of P u c st] createMarkerPopup_address [of P u c st]
      createMarkerPopup_description [of P u c st]
      cardContent_name [of P c st b] cardContent_address [of P c st b]
      showChargerDetail_address [of P c] showChargerDetail_description [of P c]
    by blast
qed

theorem user_text_escaped_witness:
  \<open>\<exists>before after.
     createMarkerPopup decimalPlatform None (demoStation1\<lparr>name := ''R&D <b>"Fast"</b>''\<rparr>)
       ''available''
     = before @ ''R&amp;D &lt;b&gt;"Fast"&lt;/b&gt;'' @ after\<close>
proof -
  have esc: \<open>escapeHtml ''R&D <b>"Fast"</b>'' = ''R&amp;D &lt;b&gt;"Fast"&lt;/b&gt;''\<close>
    by (simp add: escapeHtml_def escapeChar_def)
  have \<open>insertedEscaped (\<lambda>v. createMarkerPopup decimalPlatform None (demoStation1\<lparr>name := v\<rparr>)
           ''available'')\<close>
    using user_text_escaped [of "[]" "[]" "CHR ''a''" decimalPlatform None demoStation1
            "''available''" "[]"]
    by blast
  then obtain before after where
    \<open>\<forall>v. v \<noteq> [] \<longrightarrow>
       createMarkerPopup decimalPlatform None (demoStation1\<lparr>name := v\<rparr>) ''available''
         = before @ escapeHtml v @ after\<close>
    unfolding insertedEscaped_def by blast
  then have \<open>createMarkerPopup decimalPlatform None
                (demoStation1\<lparr>name := ''R&D <b>"Fast"</b>''\<rparr>) ''available''
              = before @ escapeHtml ''R&D <b>"Fast"</b>'' @ after\<close>
    by simp
  then show ?thesis
    unfolding esc by blast
qed

section \<open>Properties of the owner station table\<close>

text \<open>
  Claim C8 against the code. \<^verbatim>\<open>loadOwnerStations\<close> reads the undeclared identifier
  \<^verbatim>\<open>ownerChargers\<close> before it builds any row, so whenever the station request
  returns, the element shows the warning paragraph and no station row at all: the
  row of a station whose bookings could not be fetched is missing like every other.
\<close>

theorem loadOwnerStations_renders_no_row:
  "snd (loadOwnerStations P data bookingsOf ownerStations0) = couldNotLoad"
  by (cases data) (simp_all add: loadOwnerStations_def loadOwnerStations_with_def)

text \<open>
  The aggregation half of the claim holds: a station whose fetch fails adds nothing
  to the count and does not stop the loop. With the fetch for the second of three
  stations failing, the booking count is that of the first and the third.
\<close>

lemma statisticsLoop_skips_failed_fetch:
  assumes "bookingsOf (c_id B) = NotArray \<or> bookingsOf (c_id B) = Throws"
  shows "fst (statisticsLoop bookingsOf (B # rest) (b, a)) =
           fst (statisticsLoop bookingsOf rest (b, addDouble a (availableSlots B)))"
  using assms by auto

lemma loadStatistics_skips_failed_fetch:
  "demoBookings (c_id demoStation2) = NotArray \<and>
   loadStatistics demoBookings [demoStation1, demoStation2, demoStation3]
       [demoStation1, demoStation2, demoStation3]
     = \<lparr>totalStations_text = 3, totalBookings_text = 2, totalSlots_text = 9\<rparr> \<and>
   totalBookings_text (loadStatistics demoBookings [demoStation1, demoStation3]
       [demoStation1, demoStation3]) = 2"
  by code_simp

text \<open>
  Were \<^verbatim>\<open>ownerChargers\<close> bound, the row loop would give every station a row; the row of
  a station whose fetch returned the failure object shows the count 0, and the row
  with the placeholder is that of a fetch that threw.
\<close>

lemma stationRows_one:
  "stationRows P bookingsOf [c] [] =
     (case bookingsOf (c_id c) of
        IsArray bookings \<Rightarrow>
          stationRow P c (length (filter (\<lambda>b. status b \<noteq> ''cancelled'') bookings))
      | NotArray \<Rightarrow> stationRow P c 0
      | Throws \<Rightarrow> stationRowNoBookings P c)"
  by simp


end
